theory Spec2Isabelle
  imports Main "HOL-Library.AList"
begin

section \<open>Python strings\<close>

text \<open>
  A Python \<open>str\<close> is a \<open>string\<close>; a \<open>char\<close> stands for the code point of the same
  number, so the model covers the code points U+0000 to U+00FF. The three predicates
  below are Python's \<open>str.isspace\<close>, \<open>str.isalnum\<close> and \<open>str(int)\<close> on that range.
\<close>

definition isspace :: "char \<Rightarrow> bool" where
  "isspace c =
     (let n = (of_char c :: nat)
      in (9 \<le> n \<and> n \<le> 13) \<or> (28 \<le> n \<and> n \<le> 32) \<or> n = 133 \<or> n = 160)"

definition isalnum :: "char \<Rightarrow> bool" where
  "isalnum c =
     (let n = (of_char c :: nat)
      in (48 \<le> n \<and> n \<le> 57) \<or> (65 \<le> n \<and> n \<le> 90) \<or> (97 \<le> n \<and> n \<le> 122)
         \<or> n = 170 \<or> n = 178 \<or> n = 179 \<or> n = 181 \<or> n = 185 \<or> n = 186
         \<or> (188 \<le> n \<and> n \<le> 190) \<or> (192 \<le> n \<and> n \<le> 214)
         \<or> (216 \<le> n \<and> n \<le> 246) \<or> (248 \<le> n \<and> n \<le> 255))"

definition strip :: "string \<Rightarrow> string" where
  "strip s = rev (dropWhile isspace (rev (dropWhile isspace s)))"

definition digit_char :: "nat \<Rightarrow> char" where
  "digit_char d = char_of (48 + d)"

fun str :: "nat \<Rightarrow> string" where
  "str n = (if n < 10 then [digit_char n] else str (n div 10) @ [digit_char (n mod 10)])"

declare str.simps [simp del]

definition endswith :: "string \<Rightarrow> string \<Rightarrow> bool" where
  "endswith s suffix =
     (length suffix \<le> length s \<and> drop (length s - length suffix) s = suffix)"

section \<open>ElementTree elements and the path queries the extractor uses\<close>

datatype element =
  Element (tag: string) (attrib: "(string \<times> string) list") (etext: "string option")
          (children: "element list")

text \<open>\<open>Element.iter()\<close>: the element itself, then its subtree in document order.\<close>

fun iter :: "element \<Rightarrow> element list" where
  "iter (Element t a x cs) = Element t a x cs # concat (map iter cs)"

text \<open>The step \<open>.//\<close> of a path selects every element of \<open>iter\<close> but the start itself.\<close>

definition descendants :: "element \<Rightarrow> element list" where
  "descendants e = concat (map iter (children e))"

definition get :: "element \<Rightarrow> string \<Rightarrow> string option" where
  "get e k = map_of (attrib e) k"

definition get_default :: "element \<Rightarrow> string \<Rightarrow> string \<Rightarrow> string" where
  "get_default e k d = (case get e k of None \<Rightarrow> d | Some v \<Rightarrow> v)"

text \<open>\<open>e.findall('.//t')\<close>, \<open>e.find('.//t')\<close> and \<open>e.findall('.//relation[@type="text"]')\<close>.\<close>

definition findall :: "element \<Rightarrow> string \<Rightarrow> element list" where
  "findall e t = filter (\<lambda>x. tag x = t) (descendants e)"

definition find_first :: "element \<Rightarrow> string \<Rightarrow> element option" where
  "find_first e t = (case findall e t of [] \<Rightarrow> None | x # _ \<Rightarrow> Some x)"

definition findall_text_relations :: "element \<Rightarrow> element list" where
  "findall_text_relations e =
     filter (\<lambda>x. get x ''type'' = Some ''text'') (findall e ''relation'')"

section \<open>State of one call\<close>

type_synonym dict = "(string \<times> string) list"

text \<open>
  The exceptions of the call. Reading an entry can raise \<open>BadZipFile\<close> (a bad
  CRC-32); \<open>ET.fromstring\<close> raises \<open>ParseError\<close> for text that is not well-formed
  and \<open>ValueError\<close> or \<open>LookupError\<close> for a declared encoding it cannot decode.
\<close>

datatype exn = BadZipFile | ParseError | ValueError | LookupError | OSError | OtherException

datatype message =
    File_not_found
  | No_tds_file
  | Processing string
  | Found_SQL string
  | Found_initial_SQL string
  | Not_a_valid_zip
  | Error_parsing_XML
  | Unexpected_error
  | Saved string

record state =
  sql_queries :: dict
  stdout :: "message list"
  files :: "string \<rightharpoonup> string"

definition print :: "message \<Rightarrow> state \<Rightarrow> state" where
  "print m st = st\<lparr>stdout := stdout st @ [m]\<rparr>"

text \<open>\<open>sql_queries[key] = value\<close>: a new key goes last, an old key keeps its place.\<close>

definition setitem :: "string \<Rightarrow> string \<Rightarrow> state \<Rightarrow> state" where
  "setitem key v st = st\<lparr>sql_queries := AList.update key v (sql_queries st)\<rparr>"

section \<open>The tree walk (lines 145 to 173)\<close>

text \<open>The key of line 158 and the test \<open>x and x.strip()\<close> of lines 157 and 171.\<close>

definition query_key :: "string \<Rightarrow> nat \<Rightarrow> nat \<Rightarrow> string" where
  "query_key conn_name n rel_idx =
     (if n > 1 then conn_name @ ''_query_'' @ str rel_idx else conn_name)"

definition has_sql :: "string option \<Rightarrow> bool" where
  "has_sql x = (case x of None \<Rightarrow> False | Some s \<Rightarrow> s \<noteq> [] \<and> strip s \<noteq> [])"

definition process_relation :: "string \<Rightarrow> nat \<Rightarrow> state \<Rightarrow> nat \<times> element \<Rightarrow> state" where
  "process_relation conn_name n st p =
     (case p of (rel_idx, relation) \<Rightarrow>
        (case etext relation of
           None \<Rightarrow> st
         | Some sql_text \<Rightarrow>
             if has_sql (Some sql_text) then
               (let key = query_key conn_name n rel_idx
                in print (Found_SQL key) (setitem key (strip sql_text) st))
             else st))"

definition process_connection :: "state \<Rightarrow> nat \<times> element \<Rightarrow> state" where
  "process_connection st p =
     (case p of (idx, connection) \<Rightarrow>
        (let conn_name = get_default connection ''class'' (''connection_'' @ str idx);
             relations = findall_text_relations connection
         in foldl (process_relation conn_name (length relations)) st
              (enumerate 1 relations)))"

definition process_named_connection :: "state \<Rightarrow> element \<Rightarrow> state" where
  "process_named_connection st named_conn =
     (let name = get_default named_conn ''name'' ''unnamed''
      in case find_first named_conn ''connection'' of
           None \<Rightarrow> st
         | Some connection_elem \<Rightarrow>
             (case get connection_elem ''one-time-sql'' of
                None \<Rightarrow> st
              | Some initial_sql \<Rightarrow>
                  if has_sql (Some initial_sql) then
                    print (Found_initial_SQL name)
                      (setitem (name @ ''_initial_sql'') (strip initial_sql) st)
                  else st))"

definition process_root :: "element \<Rightarrow> state \<Rightarrow> state" where
  "process_root root st =
     foldl process_named_connection
       (foldl process_connection st (enumerate 1 (findall root ''connection'')))
       (findall root ''named-connection'')"

section \<open>The archive (lines 118 to 180)\<close>

text \<open>
  What the call finds at \<open>tdsx_path\<close>: nothing; a file that \<open>zipfile.ZipFile\<close> refuses
  with an exception; or an archive, given by \<open>namelist()\<close> and by what reading and
  parsing the entry of a name gives (an exception, or the root element).
\<close>

datatype tdsx =
    Missing
  | Unopenable exn
  | ZipFile "string list" "string \<Rightarrow> exn + element"

fun process_tds_files ::
  "(string \<Rightarrow> exn + element) \<Rightarrow> string list \<Rightarrow> state \<Rightarrow> exn option \<times> state" where
  "process_tds_files rd [] st = (None, st)"
| "process_tds_files rd (tds_file # rest) st =
     (let st1 = print (Processing tds_file) st
      in case rd tds_file of
           Inl e \<Rightarrow> (Some e, st1)
         | Inr root \<Rightarrow> process_tds_files rd rest (process_root root st1))"

fun handler :: "exn \<Rightarrow> state \<Rightarrow> state" where
  "handler BadZipFile st = print Not_a_valid_zip st"
| "handler ParseError st = print Error_parsing_XML st"
| "handler e st = print Unexpected_error st"

text \<open>
  The \<open>try\<close> statement; the flag says that it left through \<open>return\<close> (line 130).
  A file that vanished after the test of line 118 makes \<open>ZipFile\<close> raise
  \<open>FileNotFoundError\<close>, an \<open>OSError\<close>.
\<close>

definition try_block :: "tdsx \<Rightarrow> state \<Rightarrow> bool \<times> state" where
  "try_block src st =
     (case src of
        Missing \<Rightarrow> (False, handler OSError st)
      | Unopenable e \<Rightarrow> (False, handler e st)
      | ZipFile names rd \<Rightarrow>
          (let tds_files = filter (\<lambda>f. endswith f ''.tds'') names
           in if tds_files = [] then (True, print No_tds_file st)
              else (case process_tds_files rd tds_files st of
                      (None, st') \<Rightarrow> (False, st')
                    | (Some e, st') \<Rightarrow> (False, handler e st'))))"

section \<open>The file sink (lines 183 to 194)\<close>

definition safe_name :: "string \<Rightarrow> string" where
  "safe_name name =
     map (\<lambda>c. if isalnum c \<or> c = CHR ''-'' \<or> c = CHR ''_'' then c else CHR ''_'') name"

text \<open>\<open>os.path.join\<close> of \<open>posixpath\<close> on two components.\<close>

definition path_join :: "string \<Rightarrow> string \<Rightarrow> string" where
  "path_join a b =
     (if b \<noteq> [] \<and> hd b = CHR ''/'' then b
      else if a = [] \<or> last a = CHR ''/'' then a @ b
      else a @ ''/'' @ b)"

text \<open>Which directories \<open>os.makedirs\<close> can make and which paths \<open>open(_, 'w')\<close> can open.\<close>

record os_env =
  makedirs_ok :: "string \<Rightarrow> bool"
  open_ok :: "string \<Rightarrow> bool"

fun save_files :: "os_env \<Rightarrow> string \<Rightarrow> dict \<Rightarrow> state \<Rightarrow> exn option \<times> state" where
  "save_files env output_dir [] st = (None, st)"
| "save_files env output_dir ((name, sql) # rest) st =
     (let output_path = path_join output_dir (safe_name name @ ''.sql'')
      in if open_ok env output_path then
           save_files env output_dir rest
             (print (Saved output_path) (st\<lparr>files := (files st)(output_path \<mapsto> sql)\<rparr>))
         else (Some OSError, st))"

section \<open>\<open>extract_sql_from_tdsx\<close>\<close>

datatype outcome = Returned dict | Raised exn

text \<open>Lines 182 to 196: the sink, when asked for and there is something to save.\<close>

definition save_and_return :: "os_env \<Rightarrow> string option \<Rightarrow> state \<Rightarrow> outcome \<times> state" where
  "save_and_return env output_dir st =
     (case output_dir of
        None \<Rightarrow> (Returned (sql_queries st), st)
      | Some d \<Rightarrow>
          if d \<noteq> [] \<and> sql_queries st \<noteq> [] then
            (if makedirs_ok env d then
               (case save_files env d (sql_queries st) st of
                  (None, st') \<Rightarrow> (Returned (sql_queries st'), st')
                | (Some e, st') \<Rightarrow> (Raised e, st'))
             else (Raised OSError, st))
          else (Returned (sql_queries st), st))"

definition extract_sql_from_tdsx ::
  "os_env \<Rightarrow> tdsx \<Rightarrow> string option \<Rightarrow> state \<Rightarrow> outcome \<times> state" where
  "extract_sql_from_tdsx env src output_dir st0 =
     (let st = st0\<lparr>sql_queries := []\<rparr>
      in case src of
           Missing \<Rightarrow> (Returned (sql_queries st), print File_not_found st)
         | _ \<Rightarrow>
             (case try_block src st of
                (True, st1) \<Rightarrow> (Returned (sql_queries st1), st1)
              | (False, st1) \<Rightarrow> save_and_return env output_dir st1))"

text \<open>The invariant of the result: every stored value is non-empty and trimmed.\<close>

definition values_trimmed :: "dict \<Rightarrow> bool" where
  "values_trimmed d = (\<forall>(k, v) \<in> set d. v \<noteq> [] \<and> strip v = v)"

section \<open>Facts about the string functions\<close>

lemma strip_ends:
  assumes "strip s \<noteq> []"
  shows "\<not> isspace (hd (strip s))" and "\<not> isspace (last (strip s))"
proof -
  define a where "a = dropWhile isspace s"
  define b where "b = dropWhile isspace (rev a)"
  have sb: "strip s = rev b" by (simp add: strip_def a_def b_def)
  with assms have bne: "b \<noteq> []" by simp
  then have "\<not> isspace (hd b)" unfolding b_def by (rule hd_dropWhile)
  then show "\<not> isspace (last (strip s))" using bne by (simp add: sb last_rev)
  from bne have ane: "a \<noteq> []" by (auto simp: b_def)
  then have ha: "\<not> isspace (hd a)" unfolding a_def by (rule hd_dropWhile)
  obtain pre where "rev a = pre @ b"
    unfolding b_def by (metis takeWhile_dropWhile_id)
  with bne have "last b = last (rev a)" by simp
  also have "\<dots> = hd a" using ane by (simp add: last_rev)
  finally show "\<not> isspace (hd (strip s))" using ha bne by (simp add: sb hd_rev)
qed

lemma strip_fixed:
  assumes "s = [] \<or> (\<not> isspace (hd s) \<and> \<not> isspace (last s))"
  shows "strip s = s"
proof (cases "s = []")
  case True then show ?thesis by (simp add: strip_def)
next
  case False
  with assms have h: "\<not> isspace (hd s)" and l: "\<not> isspace (last s)" by auto
  from h have 1: "dropWhile isspace s = s" by (simp add: dropWhile_eq_self_iff)
  from l False have 2: "dropWhile isspace (rev s) = rev s"
    by (simp add: dropWhile_eq_self_iff hd_rev)
  show ?thesis by (simp add: strip_def 1 2)
qed

lemma strip_idem: "strip (strip s) = strip s"
  by (rule strip_fixed) (use strip_ends in blast)

lemma digit_char_inj: "a < 10 \<Longrightarrow> b < 10 \<Longrightarrow> digit_char a = digit_char b \<Longrightarrow> a = b"
  by (simp add: digit_char_def char_of_quasi_inj)

lemma str_not_Nil: "str n \<noteq> []"
  by (subst str.simps) simp

lemma str_inj: "str m = str n \<Longrightarrow> m = n"
proof (induction m arbitrary: n rule: str.induct)
  case (1 m)
  show ?case
  proof (cases "m < 10")
    case True
    then have sm: "str m = [digit_char m]" by (subst str.simps) simp
    show ?thesis
    proof (cases "n < 10")
      case True
      then have "str n = [digit_char n]" by (subst str.simps) simp
      with sm "1.prems" \<open>m < 10\<close> True show ?thesis by (auto dest: digit_char_inj)
    next
      case False
      then have "str n = str (n div 10) @ [digit_char (n mod 10)]" by (subst str.simps) simp
      with sm "1.prems" str_not_Nil [of "n div 10"] show ?thesis by simp
    qed
  next
    case False
    then have sm: "str m = str (m div 10) @ [digit_char (m mod 10)]" by (subst str.simps) simp
    show ?thesis
    proof (cases "n < 10")
      case True
      then have "str n = [digit_char n]" by (subst str.simps) simp
      with sm "1.prems" str_not_Nil [of "m div 10"] show ?thesis by simp
    next
      case nf: False
      then have "str n = str (n div 10) @ [digit_char (n mod 10)]" by (subst str.simps) simp
      with sm "1.prems" have e1: "str (m div 10) = str (n div 10)"
        and e2: "digit_char (m mod 10) = digit_char (n mod 10)" by auto
      from "1.IH" [OF False e1] have d: "m div 10 = n div 10" .
      from e2 have "m mod 10 = n mod 10" by (auto dest!: digit_char_inj [rotated 2])
      with d show ?thesis by (metis div_mult_mod_eq)
    qed
  qed
qed

lemma blank_strip:
  assumes "\<forall>c\<in>set t. isspace c"
  shows "strip t = []"
proof -
  from assms have d: "dropWhile isspace t = []" by (simp add: dropWhile_eq_Nil_conv)
  show ?thesis unfolding strip_def d by simp
qed

section \<open>Facts about the state and the invariants of the walk\<close>

lemma state_simps [simp]:
  "sql_queries (print m st) = sql_queries st"
  "files (print m st) = files st"
  "stdout (print m st) = stdout st @ [m]"
  "sql_queries (setitem k v st) = AList.update k v (sql_queries st)"
  "files (setitem k v st) = files st"
  "stdout (setitem k v st) = stdout st"
  by (simp_all add: print_def setitem_def)

lemma foldl_invariant:
  assumes "P s" and "\<And>s x. P s \<Longrightarrow> P (f s x)"
  shows "P (foldl f s xs)"
  using assms(1) by (induction xs arbitrary: s) (simp_all add: assms(2))

lemma process_relation_sql:
  "sql_queries (process_relation name n st (i, r)) =
     (if has_sql (etext r) then AList.update (query_key name n i) (strip (the (etext r))) (sql_queries st)
      else sql_queries st)"
  by (auto simp: process_relation_def has_sql_def Let_def split: option.splits)

lemma process_relation_files: "files (process_relation name n st p) = files st"
  by (cases p) (auto simp: process_relation_def Let_def split: option.splits)

lemma process_named_connection_files: "files (process_named_connection st e) = files st"
  by (auto simp: process_named_connection_def Let_def split: option.splits)

lemma process_connection_files: "files (process_connection st p) = files st"
  by (cases p) (simp add: process_connection_def Let_def,
      rule foldl_invariant, simp, simp add: process_relation_files)

lemma process_root_files: "files (process_root root st) = files st"
  unfolding process_root_def
  by (rule foldl_invariant, rule foldl_invariant)
     (simp_all add: process_named_connection_files process_connection_files)

text \<open>What one store can do to the dictionary.\<close>

lemma set_update_subset: "set (AList.update k v al) \<subseteq> insert (k, v) (set al)"
  by (induction al) auto

lemma update_fresh: "k \<notin> fst ` set al \<Longrightarrow> AList.update k v al = al @ [(k, v)]"
  by (induction al) auto

lemma values_trimmed_update:
  "values_trimmed d \<Longrightarrow> strip s \<noteq> [] \<Longrightarrow> values_trimmed (AList.update k (strip s) d)"
  using set_update_subset [of k "strip s" d]
  by (auto simp: values_trimmed_def strip_idem)

lemma process_relation_trimmed:
  "values_trimmed (sql_queries st) \<Longrightarrow> values_trimmed (sql_queries (process_relation name n st p))"
  by (cases p) (auto simp: process_relation_def has_sql_def Let_def values_trimmed_update split: option.splits)

lemma process_named_connection_trimmed:
  "values_trimmed (sql_queries st) \<Longrightarrow> values_trimmed (sql_queries (process_named_connection st e))"
  by (auto simp: process_named_connection_def has_sql_def Let_def values_trimmed_update split: option.splits)

lemma process_connection_trimmed:
  "values_trimmed (sql_queries st) \<Longrightarrow> values_trimmed (sql_queries (process_connection st p))"
  by (cases p) (simp add: process_connection_def Let_def,
      rule foldl_invariant, simp, simp add: process_relation_trimmed)

lemma process_root_trimmed:
  "values_trimmed (sql_queries st) \<Longrightarrow> values_trimmed (sql_queries (process_root root st))"
  unfolding process_root_def
  by (rule foldl_invariant, rule foldl_invariant)
     (simp_all add: process_named_connection_trimmed process_connection_trimmed)

lemma process_tds_files_trimmed:
  "values_trimmed (sql_queries st) \<Longrightarrow>
   values_trimmed (sql_queries (snd (process_tds_files rd fs st)))"
  by (induction fs arbitrary: st) (auto simp: Let_def process_root_trimmed split: sum.splits)

lemma handler_simps [simp]:
  "sql_queries (handler e st) = sql_queries st" "files (handler e st) = files st"
  by (cases e; simp)+

lemma try_block_trimmed:
  assumes "values_trimmed (sql_queries st)"
  shows "values_trimmed (sql_queries (snd (try_block src st)))"
proof (cases src)
  case Missing then show ?thesis using assms by (simp add: try_block_def)
next
  case (Unopenable e) then show ?thesis using assms by (simp add: try_block_def)
next
  case (ZipFile names rd)
  define fs where "fs = filter (\<lambda>f. endswith f ''.tds'') names"
  show ?thesis
    using process_tds_files_trimmed [OF assms, of rd fs] assms
    by (cases "process_tds_files rd fs st")
       (auto simp: ZipFile try_block_def Let_def fs_def [symmetric] split: option.splits)
qed

lemma save_files_sql: "sql_queries (snd (save_files env d m st)) = sql_queries st"
  by (induction env d m st rule: save_files.induct) (auto simp: Let_def)

lemma save_and_return_sql: "sql_queries (snd (save_and_return env out st)) = sql_queries st"
proof (cases out)
  case None then show ?thesis by (simp add: save_and_return_def)
next
  case (Some d)
  show ?thesis
    using save_files_sql [of env d "sql_queries st" st]
    by (cases "save_files env d (sql_queries st) st")
       (auto simp: Some save_and_return_def split: option.splits)
qed

lemma save_and_return_Returned:
  "fst (save_and_return env out st) = Returned m \<Longrightarrow> m = sql_queries (snd (save_and_return env out st))"
  by (cases out; cases "save_files env (the out) (sql_queries st) st")
     (auto simp: save_and_return_def split: option.splits if_splits)

lemma extract_Missing:
  "extract_sql_from_tdsx env Missing out st0 =
     (Returned [], print File_not_found (st0\<lparr>sql_queries := []\<rparr>))"
  by (simp add: extract_sql_from_tdsx_def)

lemma extract_present:
  "src \<noteq> Missing \<Longrightarrow>
   extract_sql_from_tdsx env src out st0 =
     (case try_block src (st0\<lparr>sql_queries := []\<rparr>) of
        (True, st1) \<Rightarrow> (Returned (sql_queries st1), st1)
      | (False, st1) \<Rightarrow> save_and_return env out st1)"
  by (cases src) (simp_all add: extract_sql_from_tdsx_def)

lemma extract_Returned:
  assumes "fst (extract_sql_from_tdsx env src out st0) = Returned m"
  shows "m = sql_queries (snd (extract_sql_from_tdsx env src out st0))"
proof (cases "src = Missing")
  case True
  with assms show ?thesis by (simp add: extract_Missing)
next
  case False
  obtain early st1 where p: "try_block src (st0\<lparr>sql_queries := []\<rparr>) = (early, st1)"
    by (cases "try_block src (st0\<lparr>sql_queries := []\<rparr>)")
  show ?thesis
    using assms save_and_return_Returned [of env out st1 m]
    by (cases early) (auto simp: extract_present [OF False] p)
qed

lemma extract_trimmed:
  "values_trimmed (sql_queries (snd (extract_sql_from_tdsx env src out st0)))"
proof (cases "src = Missing")
  case True
  then show ?thesis by (simp add: extract_Missing values_trimmed_def)
next
  case False
  obtain early st1 where p: "try_block src (st0\<lparr>sql_queries := []\<rparr>) = (early, st1)"
    by (cases "try_block src (st0\<lparr>sql_queries := []\<rparr>)")
  have "values_trimmed (sql_queries (st0\<lparr>sql_queries := []\<rparr>))"
    by (simp add: values_trimmed_def)
  from try_block_trimmed [OF this, of src] have "values_trimmed (sql_queries st1)"
    by (simp add: p)
  then show ?thesis
    by (cases early) (auto simp: extract_present [OF False] p save_and_return_sql)
qed

section \<open>What one connection stores\<close>

lemma query_key_inj: "1 < n \<Longrightarrow> query_key name n i = query_key name n j \<Longrightarrow> i = j"
  by (simp add: query_key_def str_inj)

lemma process_relation_lookup_other:
  "query_key name n (fst p) \<noteq> k \<Longrightarrow>
   map_of (sql_queries (process_relation name n st p)) k = map_of (sql_queries st) k"
  by (cases p) (simp add: process_relation_sql update_conv')

lemma relations_lookup_other:
  "\<forall>p \<in> set ps. query_key name n (fst p) \<noteq> k \<Longrightarrow>
   map_of (sql_queries (foldl (process_relation name n) st ps)) k = map_of (sql_queries st) k"
  by (induction ps arbitrary: st) (simp_all add: process_relation_lookup_other)

lemma relations_lookup:
  assumes "1 < n \<or> length rs \<le> 1" and "j < length rs" and "has_sql (etext (rs ! j))"
  shows "map_of (sql_queries (foldl (process_relation name n) st (enumerate k rs)))
           (query_key name n (k + j)) = Some (strip (the (etext (rs ! j))))"
  using assms
proof (induction rs arbitrary: st k j)
  case Nil
  then show ?case by simp
next
  case (Cons r rs)
  show ?case
  proof (cases j)
    case 0
    have later: "\<forall>p \<in> set (enumerate (Suc k) rs). query_key name n (fst p) \<noteq> query_key name n k"
    proof (cases "rs = []")
      case True then show ?thesis by simp
    next
      case False
      with Cons.prems(1) have n: "1 < n" by (cases rs) auto
      show ?thesis
      proof
        fix p assume "p \<in> set (enumerate (Suc k) rs)"
        then have "Suc k \<le> fst p" by (simp add: in_set_enumerate_eq)
        then have "fst p \<noteq> k" by simp
        then show "query_key name n (fst p) \<noteq> query_key name n k"
          using query_key_inj [OF n] by blast
      qed
    qed
    from Cons.prems(3) 0 have h: "has_sql (etext r)" by simp
    show ?thesis
      using h by (simp add: 0 relations_lookup_other [OF later] process_relation_sql update_conv')
  next
    case (Suc j')
    with Cons.prems have n: "1 < n \<or> length rs \<le> 1" and j': "j' < length rs"
      and h: "has_sql (etext (rs ! j'))" by auto
    from Cons.IH [OF n j' h, of "process_relation name n st (k, r)" "Suc k"]
    show ?thesis by (simp add: Suc)
  qed
qed

lemma process_connection_lookup:
  assumes "j < length (findall_text_relations c)"
    and "has_sql (etext (findall_text_relations c ! j))"
  shows "map_of (sql_queries (process_connection st (idx, c)))
           (query_key (get_default c ''class'' (''connection_'' @ str idx))
              (length (findall_text_relations c)) (Suc j))
         = Some (strip (the (etext (findall_text_relations c ! j))))"
proof -
  have "1 < length (findall_text_relations c) \<or> length (findall_text_relations c) \<le> 1"
    by arith
  from relations_lookup [OF this assms, of _ st 1] show ?thesis
    by (simp add: process_connection_def Let_def)
qed

lemma relations_exact:
  assumes "1 < n" and "\<forall>i \<ge> k. query_key name n i \<notin> fst ` set (sql_queries st)"
  shows "sql_queries (foldl (process_relation name n) st (enumerate k rs)) =
           sql_queries st @
           map (\<lambda>(i, r). (query_key name n i, strip (the (etext r))))
             (filter (\<lambda>(i, r). has_sql (etext r)) (enumerate k rs))"
  using assms(2)
proof (induction rs arbitrary: st k)
  case Nil
  then show ?case by simp
next
  case (Cons r rs)
  let ?st1 = "process_relation name n st (k, r)"
  have fresh: "\<forall>i \<ge> Suc k. query_key name n i \<notin> fst ` set (sql_queries ?st1)"
  proof (intro allI impI)
    fix i assume i: "Suc k \<le> i"
    then have "query_key name n i \<noteq> query_key name n k"
      using query_key_inj [OF assms(1), of name i k] by auto
    moreover from i Cons.prems have "query_key name n i \<notin> fst ` set (sql_queries st)" by simp
    ultimately show "query_key name n i \<notin> fst ` set (sql_queries ?st1)"
      by (simp add: process_relation_sql dom_update)
  qed
  from Cons.prems have "query_key name n k \<notin> fst ` set (sql_queries st)" by simp
  then have 1: "sql_queries ?st1 =
      sql_queries st @ (if has_sql (etext r) then [(query_key name n k, strip (the (etext r)))] else [])"
    by (simp add: process_relation_sql update_fresh)
  show ?case
    using Cons.IH [OF fresh] by (simp add: 1)
qed

text \<open>Keys are never removed.\<close>

lemma process_relation_keys:
  "k \<in> fst ` set (sql_queries st) \<Longrightarrow> k \<in> fst ` set (sql_queries (process_relation name n st p))"
  by (cases p) (simp add: process_relation_sql dom_update)

lemma process_connection_keys:
  "k \<in> fst ` set (sql_queries st) \<Longrightarrow> k \<in> fst ` set (sql_queries (process_connection st p))"
  by (cases p) (simp add: process_connection_def Let_def,
      rule foldl_invariant, simp, simp add: process_relation_keys)

lemma process_named_connection_sql:
  "sql_queries (process_named_connection st e) =
     (case find_first e ''connection'' of
        None \<Rightarrow> sql_queries st
      | Some ce \<Rightarrow>
          if has_sql (get ce ''one-time-sql'') then
            AList.update (get_default e ''name'' ''unnamed'' @ ''_initial_sql'')
              (strip (the (get ce ''one-time-sql''))) (sql_queries st)
          else sql_queries st)"
  by (auto simp: process_named_connection_def has_sql_def Let_def split: option.splits)

lemma process_named_connection_keys:
  "k \<in> fst ` set (sql_queries st) \<Longrightarrow> k \<in> fst ` set (sql_queries (process_named_connection st e))"
  by (simp add: process_named_connection_sql dom_update split: option.splits)

lemma foldl_reaches:
  assumes "x \<in> set xs" and "\<And>s. Q (f s x)" and "\<And>s y. Q s \<Longrightarrow> Q (f s y)"
  shows "Q (foldl f s xs)"
proof -
  from assms(1) obtain ys zs where "xs = ys @ x # zs" by (auto simp: in_set_conv_decomp)
  then have "foldl f s xs = foldl f (f (foldl f s ys) x) zs" by simp
  also have "Q \<dots>" by (rule foldl_invariant) (rule assms(2), rule assms(3))
  finally show ?thesis .
qed

lemma process_root_stores_query:
  assumes "i < length (findall root ''connection'')"
    and "c = findall root ''connection'' ! i"
    and "j < length (findall_text_relations c)"
    and "has_sql (etext (findall_text_relations c ! j))"
  shows "query_key (get_default c ''class'' (''connection_'' @ str (Suc i)))
           (length (findall_text_relations c)) (Suc j)
         \<in> fst ` set (sql_queries (process_root root st))"
    (is "?key \<in> _")
proof -
  have mem: "(Suc i, c) \<in> set (enumerate 1 (findall root ''connection''))"
    using assms(1,2) by (simp add: in_set_enumerate_eq)
  have "?key \<in> fst ` set (sql_queries
          (foldl process_connection st (enumerate 1 (findall root ''connection''))))"
  proof (rule foldl_reaches [OF mem])
    fix s
    from process_connection_lookup [OF assms(3,4), of s "Suc i"]
    show "?key \<in> fst ` set (sql_queries (process_connection s (Suc i, c)))"
      by (metis domI dom_map_of_conv_image_fst)
  qed (rule process_connection_keys)
  then show ?thesis
    unfolding process_root_def
    by (rule foldl_invariant) (rule process_named_connection_keys)
qed

lemma query_key_many: "1 < n \<Longrightarrow> query_key name n i = name @ ''_query_'' @ str i"
  by (simp add: query_key_def)

lemma process_connection_exact:
  assumes "1 < length (findall_text_relations c)"
    and "\<forall>i. get_default c ''class'' (''connection_'' @ str idx) @ ''_query_'' @ str i
             \<notin> fst ` set (sql_queries st)"
  shows "sql_queries (process_connection st (idx, c)) =
           sql_queries st @
           map (\<lambda>(i, r). (get_default c ''class'' (''connection_'' @ str idx) @ ''_query_'' @ str i,
                            strip (the (etext r))))
             (filter (\<lambda>(i, r). has_sql (etext r)) (enumerate 1 (findall_text_relations c)))"
proof -
  from assms have "\<forall>i \<ge> 1. query_key (get_default c ''class'' (''connection_'' @ str idx))
       (length (findall_text_relations c)) i \<notin> fst ` set (sql_queries st)"
    by (simp add: query_key_many)
  from relations_exact [OF assms(1) this, of "findall_text_relations c"] assms(1)
  show ?thesis by (simp add: process_connection_def Let_def query_key_many)
qed

text \<open>The log only grows.\<close>

lemma process_relation_stdout:
  "stdout (process_relation name n st (i, r)) =
     stdout st @ (if has_sql (etext r) then [Found_SQL (query_key name n i)] else [])"
  by (auto simp: process_relation_def has_sql_def Let_def split: option.splits)

lemma process_relation_logged:
  "m \<in> set (stdout st) \<Longrightarrow> m \<in> set (stdout (process_relation name n st p))"
  by (cases p) (simp add: process_relation_stdout)

lemma process_connection_logged:
  "m \<in> set (stdout st) \<Longrightarrow> m \<in> set (stdout (process_connection st p))"
  by (cases p) (simp add: process_connection_def Let_def,
      rule foldl_invariant, simp, simp add: process_relation_logged)

lemma process_named_connection_stdout:
  "stdout (process_named_connection st e) =
     stdout st @
     (case find_first e ''connection'' of
        None \<Rightarrow> []
      | Some ce \<Rightarrow>
          if has_sql (get ce ''one-time-sql'')
          then [Found_initial_SQL (get_default e ''name'' ''unnamed'')] else [])"
  by (auto simp: process_named_connection_def has_sql_def Let_def split: option.splits)

lemma process_named_connection_logged:
  "m \<in> set (stdout st) \<Longrightarrow> m \<in> set (stdout (process_named_connection st e))"
  by (simp add: process_named_connection_stdout)

lemma process_connection_logs_query:
  assumes "j < length (findall_text_relations c)"
    and "has_sql (etext (findall_text_relations c ! j))"
  shows "Found_SQL (query_key (get_default c ''class'' (''connection_'' @ str idx))
           (length (findall_text_relations c)) (Suc j))
         \<in> set (stdout (process_connection st (idx, c)))"
proof -
  have mem: "(Suc j, findall_text_relations c ! j) \<in> set (enumerate 1 (findall_text_relations c))"
    using assms(1) by (simp add: in_set_enumerate_eq)
  show ?thesis
    unfolding process_connection_def Let_def prod.case
    by (rule foldl_reaches [OF mem])
       (simp_all add: process_relation_stdout assms(2) process_relation_logged)
qed

lemma process_root_logs_query:
  assumes "i < length (findall root ''connection'')"
    and "c = findall root ''connection'' ! i"
    and "j < length (findall_text_relations c)"
    and "has_sql (etext (findall_text_relations c ! j))"
  shows "Found_SQL (query_key (get_default c ''class'' (''connection_'' @ str (Suc i)))
           (length (findall_text_relations c)) (Suc j))
         \<in> set (stdout (process_root root st))"
    (is "?m \<in> _")
proof -
  have mem: "(Suc i, c) \<in> set (enumerate 1 (findall root ''connection''))"
    using assms(1,2) by (simp add: in_set_enumerate_eq)
  have "?m \<in> set (stdout (foldl process_connection st (enumerate 1 (findall root ''connection''))))"
    by (rule foldl_reaches [OF mem])
       (rule process_connection_logs_query [OF assms(3,4)], rule process_connection_logged)
  then show ?thesis
    unfolding process_root_def
    by (rule foldl_invariant) (rule process_named_connection_logged)
qed

lemma process_named_connection_lookup_other:
  "get_default e ''name'' ''unnamed'' \<noteq> name \<Longrightarrow>
   map_of (sql_queries (process_named_connection st e)) (name @ ''_initial_sql'') =
   map_of (sql_queries st) (name @ ''_initial_sql'')"
  by (simp add: process_named_connection_sql update_conv' split: option.splits)

lemma named_connections_lookup_other:
  "\<forall>e \<in> set es. get_default e ''name'' ''unnamed'' \<noteq> name \<Longrightarrow>
   map_of (sql_queries (foldl process_named_connection st es)) (name @ ''_initial_sql'') =
   map_of (sql_queries st) (name @ ''_initial_sql'')"
  by (induction es arbitrary: st) (simp_all add: process_named_connection_lookup_other)

section \<open>Nested elements\<close>

text \<open>Subtrees: what lies below a descendant lies below the element.\<close>

lemma iter_self: "e \<in> set (iter e)"
  by (cases e) simp

lemma iter_trans: "x \<in> set (iter e) \<Longrightarrow> y \<in> set (iter x) \<Longrightarrow> y \<in> set (iter e)"
proof (induction e rule: iter.induct)
  case (1 t a tx cs)
  from "1.prems"(1) consider "x = Element t a tx cs" | ch where "ch \<in> set cs" "x \<in> set (iter ch)"
    by auto
  then show ?case
  proof cases
    case 1
    with "1.prems"(2) show ?thesis by simp
  next
    case 2
    from "1.IH" [OF 2 "1.prems"(2)] 2(1) show ?thesis by auto
  qed
qed

lemma descendants_subset_iter: "set (descendants e) \<subseteq> set (iter e)"
  by (cases e) (auto simp: descendants_def)

lemma descendants_trans:
  assumes "x \<in> set (descendants e)" and "y \<in> set (descendants x)"
  shows "y \<in> set (descendants e)"
proof -
  from assms(1) obtain ch where ch: "ch \<in> set (children e)" "x \<in> set (iter ch)"
    by (auto simp: descendants_def)
  from assms(2) descendants_subset_iter have "y \<in> set (iter x)" by blast
  from iter_trans [OF ch(2) this] ch(1) show ?thesis by (auto simp: descendants_def)
qed

lemma findall_nested:
  "x \<in> set (findall e t) \<Longrightarrow> y \<in> set (findall x u) \<Longrightarrow> y \<in> set (findall e u)"
  by (auto simp: findall_def intro: descendants_trans)

lemma text_relations_nested:
  "x \<in> set (findall e t) \<Longrightarrow> r \<in> set (findall_text_relations x) \<Longrightarrow>
   r \<in> set (findall_text_relations e)"
  by (auto simp: findall_text_relations_def intro: findall_nested)

section \<open>The archive loop and the sink\<close>

text \<open>The loop over the descriptors.\<close>

lemma process_tds_files_append:
  "\<forall>g \<in> set pre. \<exists>root. rd g = Inr root \<Longrightarrow>
   process_tds_files rd (pre @ rest) st =
     process_tds_files rd rest (snd (process_tds_files rd pre st))"
  by (induction pre arbitrary: st) (auto simp: Let_def)

lemma save_files_logged:
  "m \<in> set (stdout st) \<Longrightarrow> m \<in> set (stdout (snd (save_files env d ms st)))"
  by (induction env d ms st rule: save_files.induct) (auto simp: Let_def)

lemma save_and_return_logged:
  assumes "m \<in> set (stdout st)"
  shows "m \<in> set (stdout (snd (save_and_return env out st)))"
proof (cases out)
  case None then show ?thesis using assms by (simp add: save_and_return_def)
next
  case (Some d)
  show ?thesis
    using save_files_logged [OF assms, of env d "sql_queries st"] assms
    by (cases "save_files env d (sql_queries st) st")
       (auto simp: Some save_and_return_def split: option.splits)
qed

text \<open>The sink.\<close>

lemma safe_name_no_slash: "CHR ''/'' \<notin> set (safe_name s)"
  by (auto simp: safe_name_def isalnum_def)

lemma path_join_safe_name:
  "path_join d (safe_name k @ ''.sql'') =
     (if d = [] \<or> last d = CHR ''/'' then d else d @ ''/'') @ safe_name k @ ''.sql''"
proof -
  have "hd (safe_name k @ ''.sql'') \<noteq> CHR ''/''"
    using safe_name_no_slash [of k] by (cases "safe_name k") auto
  then show ?thesis by (simp add: path_join_def)
qed

lemma path_join_safe_name_eq:
  "path_join d (safe_name a @ ''.sql'') = path_join d (safe_name b @ ''.sql'')
     \<longleftrightarrow> safe_name a = safe_name b"
  by (simp add: path_join_safe_name)

lemma save_files_other:
  "\<forall>e \<in> set m. path_join d (safe_name (fst e) @ ''.sql'') \<noteq> p \<Longrightarrow>
   files (snd (save_files env d m st)) p = files st p"
  by (induction env d m st rule: save_files.induct) (auto simp: Let_def)

lemma save_files_content:
  assumes "save_files env d m st = (None, st')" and "i < length m"
    and "\<forall>j. i < j \<and> j < length m \<longrightarrow> safe_name (fst (m ! j)) \<noteq> safe_name (fst (m ! i))"
  shows "files st' (path_join d (safe_name (fst (m ! i)) @ ''.sql'')) = Some (snd (m ! i))"
  using assms
proof (induction env d m st arbitrary: i rule: save_files.induct)
  case (1 env d st)
  then show ?case by simp
next
  case (2 env d name sql rest st)
  let ?p = "path_join d (safe_name name @ ''.sql'')"
  let ?st1 = "print (Saved ?p) (st\<lparr>files := (files st)(?p \<mapsto> sql)\<rparr>)"
  from "2.prems"(1) have ok: "open_ok env ?p" and rec: "save_files env d rest ?st1 = (None, st')"
    by (auto simp: Let_def split: if_splits)
  show ?case
  proof (cases i)
    case 0
    have "\<forall>e \<in> set rest. path_join d (safe_name (fst e) @ ''.sql'') \<noteq> ?p"
    proof
      fix e assume "e \<in> set rest"
      then obtain k where k: "k < length rest" "e = rest ! k" by (auto simp: in_set_conv_nth)
      with "2.prems"(3) [rule_format, of "Suc k"] 0
      show "path_join d (safe_name (fst e) @ ''.sql'') \<noteq> ?p"
        by (simp add: path_join_safe_name_eq)
    qed
    from save_files_other [OF this, of env ?st1] rec 0 show ?thesis by simp
  next
    case (Suc i')
    have later: "\<forall>j. i' < j \<and> j < length rest \<longrightarrow>
                   safe_name (fst (rest ! j)) \<noteq> safe_name (fst (rest ! i'))"
    proof (intro allI impI)
      fix j assume "i' < j \<and> j < length rest"
      with "2.prems"(3) [rule_format, of "Suc j"] Suc
      show "safe_name (fst (rest ! j)) \<noteq> safe_name (fst (rest ! i'))" by simp
    qed
    from "2.prems"(2) Suc have "i' < length rest" by simp
    from "2.IH" [OF refl ok rec this later] Suc show ?thesis by simp
  qed
qed

lemma try_block_early:
  "try_block src st = (True, st1) \<Longrightarrow> sql_queries st1 = sql_queries st"
  by (cases src) (auto simp: try_block_def Let_def split: if_splits prod.splits option.splits)

lemma save_and_return_saved:
  assumes "save_and_return env (Some d) st = (Returned m, st')" and "d \<noteq> []" and "m \<noteq> []"
  shows "m = sql_queries st \<and> save_files env d m st = (None, st')"
proof -
  from assms(1) save_and_return_Returned [of env "Some d" st m]
    save_and_return_sql [of env "Some d" st]
  have m: "m = sql_queries st" by simp
  with assms show ?thesis
    by (cases "save_files env d (sql_queries st) st")
       (auto simp: save_and_return_def split: if_splits option.splits)
qed

lemma extract_saved:
  assumes "extract_sql_from_tdsx env src (Some d) st0 = (Returned m, st')"
    and "d \<noteq> []" and "m \<noteq> []"
  shows "\<exists>st1. save_files env d m st1 = (None, st')"
proof (cases "src = Missing")
  case True
  with assms show ?thesis by (simp add: extract_Missing)
next
  case False
  obtain early st1 where p: "try_block src (st0\<lparr>sql_queries := []\<rparr>) = (early, st1)"
    by (cases "try_block src (st0\<lparr>sql_queries := []\<rparr>)")
  show ?thesis
  proof (cases early)
    case True
    with assms p try_block_early [of src "st0\<lparr>sql_queries := []\<rparr>" st1]
    show ?thesis by (simp add: extract_present [OF False])
  next
    case False
    with assms(1) p have "save_and_return env (Some d) st1 = (Returned m, st')"
      by (simp add: extract_present [OF \<open>src \<noteq> Missing\<close>])
    from save_and_return_saved [OF this assms(2,3)] show ?thesis by blast
  qed
qed

lemma ascii_not_alnum:
  assumes "(of_char c :: nat) < 128"
    and "\<not> ((48 \<le> (of_char c :: nat) \<and> (of_char c :: nat) \<le> 57)
           \<or> (65 \<le> (of_char c :: nat) \<and> (of_char c :: nat) \<le> 90)
           \<or> (97 \<le> (of_char c :: nat) \<and> (of_char c :: nat) \<le> 122))"
  shows "\<not> isalnum c"
  using assms by (simp add: isalnum_def Let_def)

text \<open>The first entry that cannot be read or parsed ends the loop.\<close>

lemma handler_stdout:
  "stdout (handler e st) =
     stdout st @ [case e of BadZipFile \<Rightarrow> Not_a_valid_zip
                  | ParseError \<Rightarrow> Error_parsing_XML
                  | _ \<Rightarrow> Unexpected_error]"
  by (cases e) simp_all

lemma try_block_first_failure:
  assumes "endswith f ''.tds''"
    and "rd f = Inl e"
    and "\<forall>g \<in> set pre. endswith g ''.tds'' \<longrightarrow> (\<exists>root. rd g = Inr root)"
  shows "try_block (ZipFile (pre @ f # post) rd) st =
           (False, handler e (print (Processing f)
              (snd (process_tds_files rd (filter (\<lambda>g. endswith g ''.tds'') pre) st))))"
proof -
  let ?tds = "\<lambda>g. endswith g ''.tds''"
  have ok: "\<forall>g \<in> set (filter ?tds pre). \<exists>root. rd g = Inr root"
    using assms(3) by simp
  have "process_tds_files rd (filter ?tds (pre @ f # post)) st =
      (Some e, print (Processing f) (snd (process_tds_files rd (filter ?tds pre) st)))"
    using assms(1,2) process_tds_files_append [OF ok, of "f # filter ?tds post" st]
    by (simp add: Let_def)
  then show ?thesis using assms(1) by (simp add: try_block_def Let_def)
qed

lemma extract_first_failure:
  assumes "endswith f ''.tds''"
    and "rd f = Inl e"
    and "\<forall>g \<in> set pre. endswith g ''.tds'' \<longrightarrow> (\<exists>root. rd g = Inr root)"
  shows "extract_sql_from_tdsx env (ZipFile (pre @ f # post) rd) output_dir st0 =
           save_and_return env output_dir
             (handler e (print (Processing f)
                (snd (process_tds_files rd (filter (\<lambda>g. endswith g ''.tds'') pre)
                        (st0\<lparr>sql_queries := []\<rparr>)))))"
  by (simp add: extract_present try_block_first_failure [OF assms])

lemma extract_unopenable:
  "extract_sql_from_tdsx env (Unopenable e) output_dir st0 =
     (Returned [], handler e (st0\<lparr>sql_queries := []\<rparr>))"
  by (cases output_dir) (simp_all add: extract_present try_block_def save_and_return_def)

section \<open>The claims\<close>

text \<open>
  C8. For an archive none of whose entry names ends in \<open>.tds\<close>, the call returns the
  empty mapping without raising, reports "No .tds file found" and writes no file.
\<close>

theorem no_tds_entry_returns_empty_mapping:
  assumes "\<forall>f \<in> set names. \<not> endswith f ''.tds''"
  shows "extract_sql_from_tdsx env (ZipFile names rd) output_dir st0 =
           (Returned [], print No_tds_file (st0\<lparr>sql_queries := []\<rparr>))
         \<and> files (snd (extract_sql_from_tdsx env (ZipFile names rd) output_dir st0)) = files st0"
proof -
  from assms have "filter (\<lambda>f. endswith f ''.tds'') names = []" by (simp add: filter_empty_conv)
  then show ?thesis by (simp add: extract_sql_from_tdsx_def try_block_def)
qed

theorem no_tds_entry_returns_empty_mapping_witness:
  "\<not> endswith ''Data/Extract.hyper'' ''.tds'' \<and> \<not> endswith ''notes.tds.bak'' ''.tds''
   \<and> fst (extract_sql_from_tdsx \<lparr>makedirs_ok = (\<lambda>d. False), open_ok = (\<lambda>p. False)\<rparr>
        (ZipFile [''Data/Extract.hyper'', ''notes.tds.bak''] (\<lambda>f. Inl OtherException))
        (Some ''out'') \<lparr>sql_queries = [], stdout = [], files = Map.empty\<rparr>) = Returned []
   \<and> stdout (snd (extract_sql_from_tdsx \<lparr>makedirs_ok = (\<lambda>d. False), open_ok = (\<lambda>p. False)\<rparr>
        (ZipFile [''Data/Extract.hyper'', ''notes.tds.bak''] (\<lambda>f. Inl OtherException))
        (Some ''out'') \<lparr>sql_queries = [], stdout = [], files = Map.empty\<rparr>)) = [No_tds_file]"
proof -
  have h: "\<forall>f \<in> set [''Data/Extract.hyper'', ''notes.tds.bak'']. \<not> endswith f ''.tds''"
    by (simp add: endswith_def)
  show ?thesis
    using h no_tds_entry_returns_empty_mapping [OF h, of "\<lparr>makedirs_ok = (\<lambda>d. False), open_ok = (\<lambda>p. False)\<rparr>"
       "\<lambda>f. Inl OtherException" "Some ''out''" "\<lparr>sql_queries = [], stdout = [], files = Map.empty\<rparr>"]
    by (simp add: print_def)
qed

text \<open>
  C9. A relation whose text is absent, empty or only whitespace leaves the state as it
  was (no entry), and every value of a mapping the call returns is non-empty and equal
  to its own trimmed form.
\<close>

theorem result_values_nonempty_and_trimmed:
  "((\<forall>c \<in> set t. isspace c) \<and> etext r = Some t \<longrightarrow> process_relation conn_name n st (i, r) = st)
   \<and> (etext r = None \<longrightarrow> process_relation conn_name n st (i, r) = st)
   \<and> (fst (extract_sql_from_tdsx env src output_dir st0) = Returned m \<longrightarrow>
        (\<forall>(k, v) \<in> set m. v \<noteq> [] \<and> strip v = v))"
proof (intro conjI impI)
  assume "(\<forall>c \<in> set t. isspace c) \<and> etext r = Some t"
  then show "process_relation conn_name n st (i, r) = st"
    by (simp add: process_relation_def has_sql_def blank_strip)
next
  assume "etext r = None"
  then show "process_relation conn_name n st (i, r) = st"
    by (simp add: process_relation_def)
next
  assume "fst (extract_sql_from_tdsx env src output_dir st0) = Returned m"
  from extract_Returned [OF this] extract_trimmed [of env src output_dir st0]
  show "\<forall>(k, v) \<in> set m. v \<noteq> [] \<and> strip v = v"
    by (simp add: values_trimmed_def)
qed

theorem result_values_nonempty_and_trimmed_witness:
  "isspace CHR '' ''
   \<and> process_relation ''c'' 1 \<lparr>sql_queries = [], stdout = [], files = Map.empty\<rparr>
         (1, Element ''relation'' [(''type'', ''text'')] (Some ''  '') [])
       = \<lparr>sql_queries = [], stdout = [], files = Map.empty\<rparr>
   \<and> fst (extract_sql_from_tdsx \<lparr>makedirs_ok = (\<lambda>d. True), open_ok = (\<lambda>p. True)\<rparr>
          (ZipFile [''a.tds'']
             (\<lambda>f. Inr (Element ''datasource'' [] None
                [Element ''connection'' [(''class'', ''c'')] None
                   [Element ''relation'' [(''type'', ''text'')] (Some ''  SELECT 1 '') []]])))
          None \<lparr>sql_queries = [], stdout = [], files = Map.empty\<rparr>)
       = Returned [(''c'', ''SELECT 1'')]
   \<and> strip ''SELECT 1'' = ''SELECT 1''"
proof -
  have h1: "\<forall>c \<in> set ''  ''. isspace c"
    by (simp add: isspace_def)
  have h2: "fst (extract_sql_from_tdsx \<lparr>makedirs_ok = (\<lambda>d. True), open_ok = (\<lambda>p. True)\<rparr>
          (ZipFile [''a.tds'']
             (\<lambda>f. Inr (Element ''datasource'' [] None
                [Element ''connection'' [(''class'', ''c'')] None
                   [Element ''relation'' [(''type'', ''text'')] (Some ''  SELECT 1 '') []]])))
          None \<lparr>sql_queries = [], stdout = [], files = Map.empty\<rparr>)
       = Returned [(''c'', ''SELECT 1'')]"
    by code_simp
  show ?thesis
    using h1 h2
      result_values_nonempty_and_trimmed
        [where t = "''  ''"
           and r = "Element ''relation'' [(''type'', ''text'')] (Some ''  '') []"
           and conn_name = "''c''" and n = 1 and i = 1
           and st = "\<lparr>sql_queries = [], stdout = [], files = Map.empty\<rparr>"
           and env = "\<lparr>makedirs_ok = (\<lambda>d. True), open_ok = (\<lambda>p. True)\<rparr>"
           and src = "ZipFile [''a.tds'']
             (\<lambda>f. Inr (Element ''datasource'' [] None
                [Element ''connection'' [(''class'', ''c'')] None
                   [Element ''relation'' [(''type'', ''text'')] (Some ''  SELECT 1 '') []]]))"
           and output_dir = None
           and ?st0.0 = "\<lparr>sql_queries = [], stdout = [], files = Map.empty\<rparr>"
           and m = "[(''c'', ''SELECT 1'')]"]
    by simp
qed

text \<open>
  C1, as stated, fails: a connection with one whitespace-only text relation and one text
  relation holding \<open>SELECT 1\<close> has exactly one relation with non-empty trimmed text,
  and its entry is labelled \<open>c_query_2\<close>, not \<open>c\<close>. Line 158 counts all text
  relations of the connection, blank ones too.
\<close>

theorem blank_sibling_relation_forces_query_suffix:
  "map (\<lambda>r. has_sql (etext r))
     (findall_text_relations
        (Element ''connection'' [(''class'', ''c'')] None
           [Element ''relation'' [(''type'', ''text'')] (Some ''  '') [],
            Element ''relation'' [(''type'', ''text'')] (Some ''SELECT 1'') []]))
     = [False, True]
   \<and> fst (extract_sql_from_tdsx \<lparr>makedirs_ok = (\<lambda>d. True), open_ok = (\<lambda>p. True)\<rparr>
          (ZipFile [''a.tds'']
             (\<lambda>f. Inr (Element ''datasource'' [] None
                [Element ''connection'' [(''class'', ''c'')] None
                   [Element ''relation'' [(''type'', ''text'')] (Some ''  '') [],
                    Element ''relation'' [(''type'', ''text'')] (Some ''SELECT 1'') []]])))
          None \<lparr>sql_queries = [], stdout = [], files = Map.empty\<rparr>)
       = Returned [(''c_query_2'', ''SELECT 1'')]"
  by code_simp

text \<open>
  C1, amended. For a connection whose only \<open>type="text"\<close> relation (blank ones
  counted) has non-empty trimmed text, processing the connection stores that trimmed text
  under the connection's display name itself, with no \<open>_query_\<close> suffix.
\<close>

theorem sole_text_relation_takes_display_name:
  assumes "findall_text_relations c = [r]" and "etext r = Some t" and "strip t \<noteq> []"
  shows "sql_queries (process_connection st (idx, c)) =
           AList.update (get_default c ''class'' (''connection_'' @ str idx)) (strip t)
             (sql_queries st)"
proof -
  from assms(3) have "t \<noteq> []" by (auto simp: strip_def)
  with assms show ?thesis
    by (simp add: process_connection_def process_relation_sql has_sql_def query_key_def)
qed

theorem sole_text_relation_takes_display_name_witness:
  "findall_text_relations
     (Element ''connection'' [(''class'', ''sqlserver'')] None
        [Element ''relation'' [(''type'', ''table'')] (Some ''  '') [],
         Element ''relation'' [(''type'', ''text'')] (Some ''SELECT 1'') []])
     = [Element ''relation'' [(''type'', ''text'')] (Some ''SELECT 1'') []]
   \<and> strip ''SELECT 1'' \<noteq> []
   \<and> sql_queries (process_connection \<lparr>sql_queries = [], stdout = [], files = Map.empty\<rparr>
        (1, Element ''connection'' [(''class'', ''sqlserver'')] None
              [Element ''relation'' [(''type'', ''table'')] (Some ''  '') [],
               Element ''relation'' [(''type'', ''text'')] (Some ''SELECT 1'') []]))
       = [(''sqlserver'', ''SELECT 1'')]"
proof -
  have h1: "findall_text_relations
     (Element ''connection'' [(''class'', ''sqlserver'')] None
        [Element ''relation'' [(''type'', ''table'')] (Some ''  '') [],
         Element ''relation'' [(''type'', ''text'')] (Some ''SELECT 1'') []])
     = [Element ''relation'' [(''type'', ''text'')] (Some ''SELECT 1'') []]"
    by code_simp
  have h2: "etext (Element ''relation'' [(''type'', ''text'')] (Some ''SELECT 1'') []) = Some ''SELECT 1''"
    by simp
  have h3: "strip ''SELECT 1'' \<noteq> []" by code_simp
  have h4: "strip ''SELECT 1'' = ''SELECT 1''" by code_simp
  show ?thesis
    using h1 h3 sole_text_relation_takes_display_name [OF h1 h2 h3,
        of "\<lparr>sql_queries = [], stdout = [], files = Map.empty\<rparr>" 1]
    by (simp add: h4 get_default_def get_def)
qed

text \<open>
  C2, as stated, fails: with text relations \<open>SELECT 1\<close>, a blank one and
  \<open>SELECT 2\<close>, the second non-empty relation is labelled \<open>c_query_3\<close>, not
  \<open>c_query_2\<close>: the number is the position among all text relations.
\<close>

theorem blank_relation_still_takes_a_number:
  "map (\<lambda>r. has_sql (etext r))
     (findall_text_relations
        (Element ''connection'' [(''class'', ''c'')] None
           [Element ''relation'' [(''type'', ''text'')] (Some ''SELECT 1'') [],
            Element ''relation'' [(''type'', ''text'')] (Some ''  '') [],
            Element ''relation'' [(''type'', ''text'')] (Some ''SELECT 2'') []]))
     = [True, False, True]
   \<and> fst (extract_sql_from_tdsx \<lparr>makedirs_ok = (\<lambda>d. True), open_ok = (\<lambda>p. True)\<rparr>
          (ZipFile [''a.tds'']
             (\<lambda>f. Inr (Element ''datasource'' [] None
                [Element ''connection'' [(''class'', ''c'')] None
                   [Element ''relation'' [(''type'', ''text'')] (Some ''SELECT 1'') [],
                    Element ''relation'' [(''type'', ''text'')] (Some ''  '') [],
                    Element ''relation'' [(''type'', ''text'')] (Some ''SELECT 2'') []]])))
          None \<lparr>sql_queries = [], stdout = [], files = Map.empty\<rparr>)
       = Returned [(''c_query_1'', ''SELECT 1''), (''c_query_3'', ''SELECT 2'')]"
  by code_simp

text \<open>
  C2, amended. For a connection with more than one \<open>type="text"\<close> relation (blank
  ones counted), the relation at 1-based position \<open>i\<close> among all of them, when its
  trimmed text is non-empty, is stored as \<open>name_query_i\<close> with its trimmed text; and
  when no such label was in the mapping before, the connection appends exactly these
  entries in document order. Two text relations \<open>SELECT 1\<close> and \<open>SELECT 2\<close> give
  exactly \<open>name_query_1\<close> and \<open>name_query_2\<close>.
\<close>

theorem text_relations_numbered_by_position:
  assumes "rs = findall_text_relations c" and "1 < length rs"
    and "name = get_default c ''class'' (''connection_'' @ str idx)"
  shows "(\<forall>j. j < length rs \<and> has_sql (etext (rs ! j)) \<longrightarrow>
            map_of (sql_queries (process_connection st (idx, c)))
              (name @ ''_query_'' @ str (Suc j)) = Some (strip (the (etext (rs ! j)))))
         \<and> ((\<forall>i. name @ ''_query_'' @ str i \<notin> fst ` set (sql_queries st)) \<longrightarrow>
              sql_queries (process_connection st (idx, c)) =
                sql_queries st @
                map (\<lambda>(i, r). (name @ ''_query_'' @ str i, strip (the (etext r))))
                  (filter (\<lambda>(i, r). has_sql (etext r)) (enumerate 1 rs)))"
proof (intro conjI allI impI)
  fix j assume "j < length rs \<and> has_sql (etext (rs ! j))"
  then have "j < length (findall_text_relations c)"
    and "has_sql (etext (findall_text_relations c ! j))" by (simp_all add: assms(1))
  from process_connection_lookup [OF this, of st idx]
  show "map_of (sql_queries (process_connection st (idx, c)))
          (name @ ''_query_'' @ str (Suc j)) = Some (strip (the (etext (rs ! j))))"
    using assms by (simp add: query_key_many)
next
  assume "\<forall>i. name @ ''_query_'' @ str i \<notin> fst ` set (sql_queries st)"
  with assms process_connection_exact [of c idx st]
  show "sql_queries (process_connection st (idx, c)) =
          sql_queries st @
          map (\<lambda>(i, r). (name @ ''_query_'' @ str i, strip (the (etext r))))
            (filter (\<lambda>(i, r). has_sql (etext r)) (enumerate 1 rs))"
    by simp
qed

theorem text_relations_numbered_by_position_witness:
  "1 < length (findall_text_relations
        (Element ''connection'' [(''class'', ''c'')] None
           [Element ''relation'' [(''type'', ''text'')] (Some ''SELECT 1'') [],
            Element ''relation'' [(''type'', ''text'')] (Some '' SELECT 2 '') []]))
   \<and> sql_queries (process_connection \<lparr>sql_queries = [], stdout = [], files = Map.empty\<rparr>
        (1, Element ''connection'' [(''class'', ''c'')] None
           [Element ''relation'' [(''type'', ''text'')] (Some ''SELECT 1'') [],
            Element ''relation'' [(''type'', ''text'')] (Some '' SELECT 2 '') []]))
       = [(''c_query_1'', ''SELECT 1''), (''c_query_2'', ''SELECT 2'')]
   \<and> map_of (sql_queries (process_connection \<lparr>sql_queries = [], stdout = [], files = Map.empty\<rparr>
        (1, Element ''connection'' [(''class'', ''c'')] None
           [Element ''relation'' [(''type'', ''text'')] (Some ''SELECT 1'') [],
            Element ''relation'' [(''type'', ''text'')] (Some '' SELECT 2 '') []])))
        ''c_query_2'' = Some ''SELECT 2''"
proof -
  let ?c = "Element ''connection'' [(''class'', ''c'')] None
           [Element ''relation'' [(''type'', ''text'')] (Some ''SELECT 1'') [],
            Element ''relation'' [(''type'', ''text'')] (Some '' SELECT 2 '') []]"
  let ?rs = "[Element ''relation'' [(''type'', ''text'')] (Some ''SELECT 1'') [],
            Element ''relation'' [(''type'', ''text'')] (Some '' SELECT 2 '') []]"
  let ?st = "\<lparr>sql_queries = [], stdout = [], files = Map.empty\<rparr>"
  have h1: "?rs = findall_text_relations ?c" by code_simp
  have h2: "1 < length ?rs" by simp
  have h3: "''c'' = get_default ?c ''class'' (''connection_'' @ str 1)" by code_simp
  have e1: "strip ''SELECT 1'' = ''SELECT 1''" by code_simp
  have e2: "strip '' SELECT 2 '' = ''SELECT 2''" by code_simp
  have e3: "has_sql (Some ''SELECT 1'')" by code_simp
  have e4: "has_sql (Some '' SELECT 2 '')" by code_simp
  have e5: "str (Suc 0) = ''1''" by code_simp
  have e6: "str 2 = ''2''" by code_simp
  have e7: "str (Suc (Suc 0)) = ''2''" by code_simp
  note t = text_relations_numbered_by_position [OF h1 h2 h3, of ?st]
  have a: "sql_queries (process_connection ?st (1, ?c))
       = [(''c_query_1'', ''SELECT 1''), (''c_query_2'', ''SELECT 2'')]"
    using conjunct2 [OF t] by (simp add: e1 e2 e3 e4 e5 e7)
  have b: "map_of (sql_queries (process_connection ?st (1, ?c))) ''c_query_2'' = Some ''SELECT 2''"
    using spec [OF conjunct1 [OF t], of 1] by (simp add: e2 e4 e7)
  show ?thesis using a b h1 [symmetric] by simp
qed

text \<open>
  C4, as stated, fails: a connection whose \<open>class\<close> attribute is present but empty
  is named by the empty string, not \<open>connection_1\<close>: \<open>get\<close> falls back to its
  default only when the attribute is absent.
\<close>

theorem empty_class_attribute_is_the_display_name:
  "get (Element ''connection'' [(''class'', '''')] None
          [Element ''relation'' [(''type'', ''text'')] (Some ''SELECT 1'') []]) ''class'' = Some ''''
   \<and> fst (extract_sql_from_tdsx \<lparr>makedirs_ok = (\<lambda>d. True), open_ok = (\<lambda>p. True)\<rparr>
          (ZipFile [''a.tds'']
             (\<lambda>f. Inr (Element ''datasource'' [] None
                [Element ''connection'' [(''class'', '''')] None
                   [Element ''relation'' [(''type'', ''text'')] (Some ''SELECT 1'') []]])))
          None \<lparr>sql_queries = [], stdout = [], files = Map.empty\<rparr>)
       = Returned [('''', ''SELECT 1'')]
   \<and> stdout (snd (extract_sql_from_tdsx \<lparr>makedirs_ok = (\<lambda>d. True), open_ok = (\<lambda>p. True)\<rparr>
          (ZipFile [''a.tds'']
             (\<lambda>f. Inr (Element ''datasource'' [] None
                [Element ''connection'' [(''class'', '''')] None
                   [Element ''relation'' [(''type'', ''text'')] (Some ''SELECT 1'') []]])))
          None \<lparr>sql_queries = [], stdout = [], files = Map.empty\<rparr>))
       = [Processing ''a.tds'', Found_SQL '''']"
  by code_simp

text \<open>
  C4, amended. The display name of a connection is its \<open>class\<close> attribute whenever
  that attribute is present (empty or not), and otherwise \<open>connection_n\<close>, with
  \<open>n\<close> its 1-based rank among the connection elements below the root in document
  order. Every query of the connection is stored and reported under the key built from
  that name.
\<close>

theorem display_name_is_class_if_present_else_rank:
  assumes "i < length (findall root ''connection'')"
    and "c = findall root ''connection'' ! i"
    and "j < length (findall_text_relations c)"
    and "has_sql (etext (findall_text_relations c ! j))"
    and "display_name = (case get c ''class'' of Some v \<Rightarrow> v | None \<Rightarrow> ''connection_'' @ str (i + 1))"
    and "key = query_key display_name (length (findall_text_relations c)) (j + 1)"
  shows "key \<in> fst ` set (sql_queries (process_root root st))
         \<and> Found_SQL key \<in> set (stdout (process_root root st))"
proof -
  have "display_name = get_default c ''class'' (''connection_'' @ str (Suc i))"
    by (simp add: assms(5) get_default_def split: option.splits)
  then show ?thesis
    using process_root_stores_query [OF assms(1-4), of st]
      process_root_logs_query [OF assms(1-4), of st]
    by (simp add: assms(6))
qed

theorem display_name_is_class_if_present_else_rank_witness:
  "1 < length (findall (Element ''datasource'' [] None
       [Element ''connection'' [(''class'', ''postgres'')] None
          [Element ''relation'' [(''type'', ''text'')] (Some ''SELECT 1'') []],
        Element ''connection'' [] None
          [Element ''relation'' [(''type'', ''text'')] (Some ''SELECT 2'') []]]) ''connection'')
   \<and> findall (Element ''datasource'' [] None
       [Element ''connection'' [(''class'', ''postgres'')] None
          [Element ''relation'' [(''type'', ''text'')] (Some ''SELECT 1'') []],
        Element ''connection'' [] None
          [Element ''relation'' [(''type'', ''text'')] (Some ''SELECT 2'') []]]) ''connection'' ! 1 = (Element ''connection'' [] None
          [Element ''relation'' [(''type'', ''text'')] (Some ''SELECT 2'') []])
   \<and> get (Element ''connection'' [] None
          [Element ''relation'' [(''type'', ''text'')] (Some ''SELECT 2'') []]) ''class'' = None
   \<and> ''connection_2'' \<in> fst ` set (sql_queries (process_root (Element ''datasource'' [] None
       [Element ''connection'' [(''class'', ''postgres'')] None
          [Element ''relation'' [(''type'', ''text'')] (Some ''SELECT 1'') []],
        Element ''connection'' [] None
          [Element ''relation'' [(''type'', ''text'')] (Some ''SELECT 2'') []]]) \<lparr>sql_queries = [], stdout = [], files = Map.empty\<rparr>))
   \<and> Found_SQL ''connection_2'' \<in> set (stdout (process_root (Element ''datasource'' [] None
       [Element ''connection'' [(''class'', ''postgres'')] None
          [Element ''relation'' [(''type'', ''text'')] (Some ''SELECT 1'') []],
        Element ''connection'' [] None
          [Element ''relation'' [(''type'', ''text'')] (Some ''SELECT 2'') []]]) \<lparr>sql_queries = [], stdout = [], files = Map.empty\<rparr>))"
proof -
  let ?root = "(Element ''datasource'' [] None
       [Element ''connection'' [(''class'', ''postgres'')] None
          [Element ''relation'' [(''type'', ''text'')] (Some ''SELECT 1'') []],
        Element ''connection'' [] None
          [Element ''relation'' [(''type'', ''text'')] (Some ''SELECT 2'') []]])"
  let ?c = "(Element ''connection'' [] None
          [Element ''relation'' [(''type'', ''text'')] (Some ''SELECT 2'') []])"
  have h1: "1 < length (findall ?root ''connection'')" by code_simp
  have h2: "?c = findall ?root ''connection'' ! 1" by code_simp
  have h3: "0 < length (findall_text_relations ?c)" by code_simp
  have h4: "has_sql (etext (findall_text_relations ?c ! 0))" by code_simp
  have h5: "''connection_2'' =
      (case get ?c ''class'' of Some v \<Rightarrow> v | None \<Rightarrow> ''connection_'' @ str (1 + 1))"
    by code_simp
  have h6: "''connection_2'' = query_key ''connection_2'' (length (findall_text_relations ?c)) (0 + 1)"
    by code_simp
  have h7: "get ?c ''class'' = None" by code_simp
  show ?thesis
    using h1 h2 [symmetric] h7
      display_name_is_class_if_present_else_rank [OF h1 h2 h3 h4 h5 h6, of "\<lparr>sql_queries = [], stdout = [], files = Map.empty\<rparr>"]
    by blast
qed

text \<open>
  C5. For a named-connection of the document, named by its \<open>name\<close> attribute or
  \<open>unnamed\<close> when there is none, whose first connection descendant has a
  \<open>one-time-sql\<close> attribute that is non-empty after trimming: processing the node stores
  the trimmed text under \<open>name_initial_sql\<close>; the document's mapping has that key and
  the log reports it; and the mapping of the document holds that very text when no later
  named-connection has the same name.
\<close>

theorem named_connection_initial_sql_is_stored:
  assumes "i < length (findall root ''named-connection'')"
    and "nc = findall root ''named-connection'' ! i"
    and "name = (case get nc ''name'' of Some v \<Rightarrow> v | None \<Rightarrow> ''unnamed'')"
    and "find_first nc ''connection'' = Some ce"
    and "get ce ''one-time-sql'' = Some s"
    and "strip s \<noteq> []"
  shows "map_of (sql_queries (process_named_connection st' nc)) (name @ ''_initial_sql'')
           = Some (strip s)
         \<and> name @ ''_initial_sql'' \<in> fst ` set (sql_queries (process_root root st))
         \<and> Found_initial_SQL name \<in> set (stdout (process_root root st))
         \<and> ((\<forall>j. i < j \<and> j < length (findall root ''named-connection'') \<longrightarrow>
                 (case get (findall root ''named-connection'' ! j) ''name'' of
                    Some v \<Rightarrow> v | None \<Rightarrow> ''unnamed'') \<noteq> name) \<longrightarrow>
              map_of (sql_queries (process_root root st)) (name @ ''_initial_sql'')
                = Some (strip s))"
proof -
  let ?ncs = "findall root ''named-connection''"
  let ?key = "name @ ''_initial_sql''"
  have name: "name = get_default nc ''name'' ''unnamed''"
    by (simp add: assms(3) get_default_def split: option.splits)
  from assms(6) have "s \<noteq> []" by (auto simp: strip_def)
  with assms(5,6) have sql: "has_sql (get ce ''one-time-sql'')" by (simp add: has_sql_def)
  have step: "map_of (sql_queries (process_named_connection x nc)) ?key = Some (strip s)" for x
    using sql assms(4,5) by (simp add: process_named_connection_sql update_conv' name)
  have logs: "Found_initial_SQL name \<in> set (stdout (process_named_connection x nc))" for x
    using sql assms(4) by (simp add: process_named_connection_stdout name)
  have mem: "nc \<in> set ?ncs" using assms(1,2) by simp
  have keys: "?key \<in> fst ` set (sql_queries (process_root root st))"
    unfolding process_root_def
  proof (rule foldl_reaches [OF mem])
    fix x show "?key \<in> fst ` set (sql_queries (process_named_connection x nc))"
      using step [of x] by (metis domI dom_map_of_conv_image_fst)
  qed (rule process_named_connection_keys)
  have logged: "Found_initial_SQL name \<in> set (stdout (process_root root st))"
    unfolding process_root_def
    by (rule foldl_reaches [OF mem]) (rule logs, rule process_named_connection_logged)
  have final: "map_of (sql_queries (process_root root st)) ?key = Some (strip s)"
    if later: "\<forall>j. i < j \<and> j < length ?ncs \<longrightarrow>
                 (case get (?ncs ! j) ''name'' of Some v \<Rightarrow> v | None \<Rightarrow> ''unnamed'') \<noteq> name"
  proof -
    have split: "?ncs = take i ?ncs @ nc # drop (Suc i) ?ncs"
      using assms(1,2) by (simp add: id_take_nth_drop)
    have rest: "\<forall>e \<in> set (drop (Suc i) ?ncs). get_default e ''name'' ''unnamed'' \<noteq> name"
    proof
      fix e assume "e \<in> set (drop (Suc i) ?ncs)"
      then obtain k where k: "k < length ?ncs - Suc i" "e = ?ncs ! (Suc i + k)"
        by (auto simp: in_set_conv_nth)
      with later [rule_format, of "Suc i + k"] show "get_default e ''name'' ''unnamed'' \<noteq> name"
        by (simp add: get_default_def)
    qed
    let ?s1 = "foldl process_connection st (enumerate 1 (findall root ''connection''))"
    have "process_root root st =
            foldl process_named_connection
              (process_named_connection (foldl process_named_connection ?s1 (take i ?ncs)) nc)
              (drop (Suc i) ?ncs)"
      unfolding process_root_def by (subst split) simp
    then show ?thesis
      by (simp add: named_connections_lookup_other [OF rest] step)
  qed
  from step keys logged final show ?thesis by blast
qed

theorem named_connection_initial_sql_is_stored_witness:
  "findall (Element ''datasource'' [] None [Element ''connection'' [(''class'', ''federated'')] None [Element ''named-connections'' [] None [(Element ''named-connection'' [(''name'', ''src'')] None [(Element ''connection'' [(''class'', ''postgres''), (''one-time-sql'', ''SELECT 3  '')] None [])])]]]) ''named-connection'' = [(Element ''named-connection'' [(''name'', ''src'')] None [(Element ''connection'' [(''class'', ''postgres''), (''one-time-sql'', ''SELECT 3  '')] None [])])]
   \<and> get (Element ''named-connection'' [(''name'', ''src'')] None [(Element ''connection'' [(''class'', ''postgres''), (''one-time-sql'', ''SELECT 3  '')] None [])]) ''name'' = Some ''src''
   \<and> find_first (Element ''named-connection'' [(''name'', ''src'')] None [(Element ''connection'' [(''class'', ''postgres''), (''one-time-sql'', ''SELECT 3  '')] None [])]) ''connection'' = Some (Element ''connection'' [(''class'', ''postgres''), (''one-time-sql'', ''SELECT 3  '')] None [])
   \<and> get (Element ''connection'' [(''class'', ''postgres''), (''one-time-sql'', ''SELECT 3  '')] None []) ''one-time-sql'' = Some ''SELECT 3  ''
   \<and> strip ''SELECT 3  '' = ''SELECT 3''
   \<and> map_of (sql_queries (process_root (Element ''datasource'' [] None [Element ''connection'' [(''class'', ''federated'')] None [Element ''named-connections'' [] None [(Element ''named-connection'' [(''name'', ''src'')] None [(Element ''connection'' [(''class'', ''postgres''), (''one-time-sql'', ''SELECT 3  '')] None [])])]]]) \<lparr>sql_queries = [], stdout = [], files = Map.empty\<rparr>)) ''src_initial_sql'' = Some ''SELECT 3''
   \<and> Found_initial_SQL ''src'' \<in> set (stdout (process_root (Element ''datasource'' [] None [Element ''connection'' [(''class'', ''federated'')] None [Element ''named-connections'' [] None [(Element ''named-connection'' [(''name'', ''src'')] None [(Element ''connection'' [(''class'', ''postgres''), (''one-time-sql'', ''SELECT 3  '')] None [])])]]]) \<lparr>sql_queries = [], stdout = [], files = Map.empty\<rparr>))"
proof -
  let ?root = "(Element ''datasource'' [] None [Element ''connection'' [(''class'', ''federated'')] None [Element ''named-connections'' [] None [(Element ''named-connection'' [(''name'', ''src'')] None [(Element ''connection'' [(''class'', ''postgres''), (''one-time-sql'', ''SELECT 3  '')] None [])])]]])"
  let ?nc = "(Element ''named-connection'' [(''name'', ''src'')] None [(Element ''connection'' [(''class'', ''postgres''), (''one-time-sql'', ''SELECT 3  '')] None [])])"
  let ?ce = "(Element ''connection'' [(''class'', ''postgres''), (''one-time-sql'', ''SELECT 3  '')] None [])"
  let ?st = "\<lparr>sql_queries = [], stdout = [], files = Map.empty\<rparr>"
  have l: "findall ?root ''named-connection'' = [?nc]" by code_simp
  have h1: "0 < length (findall ?root ''named-connection'')" by code_simp
  have h2: "?nc = findall ?root ''named-connection'' ! 0" by code_simp
  have n: "get ?nc ''name'' = Some ''src''" by code_simp
  have h3: "''src'' = (case get ?nc ''name'' of Some v \<Rightarrow> v | None \<Rightarrow> ''unnamed'')"
    by code_simp
  have h4: "find_first ?nc ''connection'' = Some ?ce" by code_simp
  have h5: "get ?ce ''one-time-sql'' = Some ''SELECT 3  ''" by code_simp
  have e: "strip ''SELECT 3  '' = ''SELECT 3''" by code_simp
  have h6: "strip ''SELECT 3  '' \<noteq> []" by (simp add: e)
  note t = named_connection_initial_sql_is_stored [OF h1 h2 h3 h4 h5 h6, of ?st ?st]
  have later: "\<forall>j. 0 < j \<and> j < length (findall ?root ''named-connection'') \<longrightarrow>
                 (case get (findall ?root ''named-connection'' ! j) ''name'' of
                    Some v \<Rightarrow> v | None \<Rightarrow> ''unnamed'') \<noteq> ''src''"
    unfolding l by simp
  from t later have "map_of (sql_queries (process_root ?root ?st)) (''src'' @ ''_initial_sql'')
      = Some (strip ''SELECT 3  '')" by blast
  then have a: "map_of (sql_queries (process_root ?root ?st)) ''src_initial_sql'' = Some ''SELECT 3''"
    by (simp add: e)
  from t have b: "Found_initial_SQL ''src'' \<in> set (stdout (process_root ?root ?st))" by blast
  show ?thesis
    by (intro conjI) (rule l, rule n, rule h4, rule h5, rule e, rule a, rule b)
qed

text \<open>
  C10. When a connection lies inside another one, the search from the root finds both; a
  text relation below the inner one is also among the outer one's text relations; and
  its trimmed text is stored once for each of the two connections, under the key of each
  (both keys are in the document's mapping and both stores are reported).
\<close>

theorem nested_connection_sql_is_stored_for_both:
  assumes "io < length (findall root ''connection'')"
    and "outer = findall root ''connection'' ! io"
    and "inner \<in> set (findall outer ''connection'')"
    and "ji < length (findall_text_relations inner)"
    and "r = findall_text_relations inner ! ji"
    and "has_sql (etext r)"
  shows "\<exists>ii jo.
           ii < length (findall root ''connection'')
         \<and> findall root ''connection'' ! ii = inner
         \<and> jo < length (findall_text_relations outer)
         \<and> findall_text_relations outer ! jo = r
         \<and> map_of (sql_queries (process_connection s (io + 1, outer)))
             (query_key (get_default outer ''class'' (''connection_'' @ str (io + 1)))
                (length (findall_text_relations outer)) (jo + 1)) = Some (strip (the (etext r)))
         \<and> map_of (sql_queries (process_connection s' (ii + 1, inner)))
             (query_key (get_default inner ''class'' (''connection_'' @ str (ii + 1)))
                (length (findall_text_relations inner)) (ji + 1)) = Some (strip (the (etext r)))
         \<and> Found_SQL (query_key (get_default outer ''class'' (''connection_'' @ str (io + 1)))
                (length (findall_text_relations outer)) (jo + 1))
             \<in> set (stdout (process_root root st))
         \<and> Found_SQL (query_key (get_default inner ''class'' (''connection_'' @ str (ii + 1)))
                (length (findall_text_relations inner)) (ji + 1))
             \<in> set (stdout (process_root root st))
         \<and> query_key (get_default outer ''class'' (''connection_'' @ str (io + 1)))
                (length (findall_text_relations outer)) (jo + 1)
             \<in> fst ` set (sql_queries (process_root root st))
         \<and> query_key (get_default inner ''class'' (''connection_'' @ str (ii + 1)))
                (length (findall_text_relations inner)) (ji + 1)
             \<in> fst ` set (sql_queries (process_root root st))"
proof -
  from assms(1,2) have o: "outer \<in> set (findall root ''connection'')" by simp
  from findall_nested [OF o assms(3)] obtain ii
    where ii: "ii < length (findall root ''connection'')" "findall root ''connection'' ! ii = inner"
    by (auto simp: in_set_conv_nth)
  from assms(4,5) have "r \<in> set (findall_text_relations inner)" by simp
  from text_relations_nested [OF assms(3) this] obtain jo
    where jo: "jo < length (findall_text_relations outer)" "findall_text_relations outer ! jo = r"
    by (auto simp: in_set_conv_nth)
  have ho: "has_sql (etext (findall_text_relations outer ! jo))" using jo(2) assms(6) by simp
  have hi: "has_sql (etext (findall_text_relations inner ! ji))" using assms(5,6) by simp
  note lo = process_connection_lookup [OF jo(1) ho, of s "Suc io"]
  note li = process_connection_lookup [OF assms(4) hi, of s' "Suc ii"]
  note go = process_root_logs_query [OF assms(1,2) jo(1) ho, of st]
  note gi = process_root_logs_query [OF ii(1) ii(2) [symmetric] assms(4) hi, of st]
  note ko = process_root_stores_query [OF assms(1,2) jo(1) ho, of st]
  note ki = process_root_stores_query [OF ii(1) ii(2) [symmetric] assms(4) hi, of st]
  show ?thesis
    apply (rule exI [of _ ii], rule exI [of _ jo])
    using ii jo lo li go gi ko ki assms(5) by simp
qed

theorem nested_connection_sql_is_stored_for_both_witness:
  "0 < length (findall (Element ''datasource'' [] None [(Element ''connection'' [(''class'', ''federated'')] None [(Element ''connection'' [(''class'', ''postgres'')] None [(Element ''relation'' [(''type'', ''text'')] (Some ''SELECT 1'') [])])])]) ''connection'')
   \<and> (Element ''connection'' [(''class'', ''federated'')] None [(Element ''connection'' [(''class'', ''postgres'')] None [(Element ''relation'' [(''type'', ''text'')] (Some ''SELECT 1'') [])])]) = findall (Element ''datasource'' [] None [(Element ''connection'' [(''class'', ''federated'')] None [(Element ''connection'' [(''class'', ''postgres'')] None [(Element ''relation'' [(''type'', ''text'')] (Some ''SELECT 1'') [])])])]) ''connection'' ! 0
   \<and> (Element ''connection'' [(''class'', ''postgres'')] None [(Element ''relation'' [(''type'', ''text'')] (Some ''SELECT 1'') [])]) \<in> set (findall (Element ''connection'' [(''class'', ''federated'')] None [(Element ''connection'' [(''class'', ''postgres'')] None [(Element ''relation'' [(''type'', ''text'')] (Some ''SELECT 1'') [])])]) ''connection'')
   \<and> (Element ''relation'' [(''type'', ''text'')] (Some ''SELECT 1'') []) = findall_text_relations (Element ''connection'' [(''class'', ''postgres'')] None [(Element ''relation'' [(''type'', ''text'')] (Some ''SELECT 1'') [])]) ! 0
   \<and> has_sql (etext (Element ''relation'' [(''type'', ''text'')] (Some ''SELECT 1'') []))
   \<and> (\<exists>ii jo.
           ii < length (findall (Element ''datasource'' [] None [(Element ''connection'' [(''class'', ''federated'')] None [(Element ''connection'' [(''class'', ''postgres'')] None [(Element ''relation'' [(''type'', ''text'')] (Some ''SELECT 1'') [])])])]) ''connection'')
         \<and> findall (Element ''datasource'' [] None [(Element ''connection'' [(''class'', ''federated'')] None [(Element ''connection'' [(''class'', ''postgres'')] None [(Element ''relation'' [(''type'', ''text'')] (Some ''SELECT 1'') [])])])]) ''connection'' ! ii = (Element ''connection'' [(''class'', ''postgres'')] None [(Element ''relation'' [(''type'', ''text'')] (Some ''SELECT 1'') [])])
         \<and> jo < length (findall_text_relations (Element ''connection'' [(''class'', ''federated'')] None [(Element ''connection'' [(''class'', ''postgres'')] None [(Element ''relation'' [(''type'', ''text'')] (Some ''SELECT 1'') [])])]))
         \<and> findall_text_relations (Element ''connection'' [(''class'', ''federated'')] None [(Element ''connection'' [(''class'', ''postgres'')] None [(Element ''relation'' [(''type'', ''text'')] (Some ''SELECT 1'') [])])]) ! jo = (Element ''relation'' [(''type'', ''text'')] (Some ''SELECT 1'') [])
         \<and> map_of (sql_queries (process_connection \<lparr>sql_queries = [], stdout = [], files = Map.empty\<rparr> (0 + 1, (Element ''connection'' [(''class'', ''federated'')] None [(Element ''connection'' [(''class'', ''postgres'')] None [(Element ''relation'' [(''type'', ''text'')] (Some ''SELECT 1'') [])])]))))
             (query_key (get_default (Element ''connection'' [(''class'', ''federated'')] None [(Element ''connection'' [(''class'', ''postgres'')] None [(Element ''relation'' [(''type'', ''text'')] (Some ''SELECT 1'') [])])]) ''class'' (''connection_'' @ str (0 + 1)))
                (length (findall_text_relations (Element ''connection'' [(''class'', ''federated'')] None [(Element ''connection'' [(''class'', ''postgres'')] None [(Element ''relation'' [(''type'', ''text'')] (Some ''SELECT 1'') [])])]))) (jo + 1)) = Some (strip (the (etext (Element ''relation'' [(''type'', ''text'')] (Some ''SELECT 1'') []))))
         \<and> map_of (sql_queries (process_connection \<lparr>sql_queries = [], stdout = [], files = Map.empty\<rparr> (ii + 1, (Element ''connection'' [(''class'', ''postgres'')] None [(Element ''relation'' [(''type'', ''text'')] (Some ''SELECT 1'') [])]))))
             (query_key (get_default (Element ''connection'' [(''class'', ''postgres'')] None [(Element ''relation'' [(''type'', ''text'')] (Some ''SELECT 1'') [])]) ''class'' (''connection_'' @ str (ii + 1)))
                (length (findall_text_relations (Element ''connection'' [(''class'', ''postgres'')] None [(Element ''relation'' [(''type'', ''text'')] (Some ''SELECT 1'') [])]))) (0 + 1)) = Some (strip (the (etext (Element ''relation'' [(''type'', ''text'')] (Some ''SELECT 1'') []))))
         \<and> Found_SQL (query_key (get_default (Element ''connection'' [(''class'', ''federated'')] None [(Element ''connection'' [(''class'', ''postgres'')] None [(Element ''relation'' [(''type'', ''text'')] (Some ''SELECT 1'') [])])]) ''class'' (''connection_'' @ str (0 + 1)))
                (length (findall_text_relations (Element ''connection'' [(''class'', ''federated'')] None [(Element ''connection'' [(''class'', ''postgres'')] None [(Element ''relation'' [(''type'', ''text'')] (Some ''SELECT 1'') [])])]))) (jo + 1))
             \<in> set (stdout (process_root (Element ''datasource'' [] None [(Element ''connection'' [(''class'', ''federated'')] None [(Element ''connection'' [(''class'', ''postgres'')] None [(Element ''relation'' [(''type'', ''text'')] (Some ''SELECT 1'') [])])])]) \<lparr>sql_queries = [], stdout = [], files = Map.empty\<rparr>))
         \<and> Found_SQL (query_key (get_default (Element ''connection'' [(''class'', ''postgres'')] None [(Element ''relation'' [(''type'', ''text'')] (Some ''SELECT 1'') [])]) ''class'' (''connection_'' @ str (ii + 1)))
                (length (findall_text_relations (Element ''connection'' [(''class'', ''postgres'')] None [(Element ''relation'' [(''type'', ''text'')] (Some ''SELECT 1'') [])]))) (0 + 1))
             \<in> set (stdout (process_root (Element ''datasource'' [] None [(Element ''connection'' [(''class'', ''federated'')] None [(Element ''connection'' [(''class'', ''postgres'')] None [(Element ''relation'' [(''type'', ''text'')] (Some ''SELECT 1'') [])])])]) \<lparr>sql_queries = [], stdout = [], files = Map.empty\<rparr>))
         \<and> query_key (get_default (Element ''connection'' [(''class'', ''federated'')] None [(Element ''connection'' [(''class'', ''postgres'')] None [(Element ''relation'' [(''type'', ''text'')] (Some ''SELECT 1'') [])])]) ''class'' (''connection_'' @ str (0 + 1)))
                (length (findall_text_relations (Element ''connection'' [(''class'', ''federated'')] None [(Element ''connection'' [(''class'', ''postgres'')] None [(Element ''relation'' [(''type'', ''text'')] (Some ''SELECT 1'') [])])]))) (jo + 1)
             \<in> fst ` set (sql_queries (process_root (Element ''datasource'' [] None [(Element ''connection'' [(''class'', ''federated'')] None [(Element ''connection'' [(''class'', ''postgres'')] None [(Element ''relation'' [(''type'', ''text'')] (Some ''SELECT 1'') [])])])]) \<lparr>sql_queries = [], stdout = [], files = Map.empty\<rparr>))
         \<and> query_key (get_default (Element ''connection'' [(''class'', ''postgres'')] None [(Element ''relation'' [(''type'', ''text'')] (Some ''SELECT 1'') [])]) ''class'' (''connection_'' @ str (ii + 1)))
                (length (findall_text_relations (Element ''connection'' [(''class'', ''postgres'')] None [(Element ''relation'' [(''type'', ''text'')] (Some ''SELECT 1'') [])]))) (0 + 1)
             \<in> fst ` set (sql_queries (process_root (Element ''datasource'' [] None [(Element ''connection'' [(''class'', ''federated'')] None [(Element ''connection'' [(''class'', ''postgres'')] None [(Element ''relation'' [(''type'', ''text'')] (Some ''SELECT 1'') [])])])]) \<lparr>sql_queries = [], stdout = [], files = Map.empty\<rparr>)))
   \<and> sql_queries (process_root (Element ''datasource'' [] None [(Element ''connection'' [(''class'', ''federated'')] None [(Element ''connection'' [(''class'', ''postgres'')] None [(Element ''relation'' [(''type'', ''text'')] (Some ''SELECT 1'') [])])])]) \<lparr>sql_queries = [], stdout = [], files = Map.empty\<rparr>)
       = [(''federated'', ''SELECT 1''), (''postgres'', ''SELECT 1'')]"
proof -
  let ?root = "(Element ''datasource'' [] None [(Element ''connection'' [(''class'', ''federated'')] None [(Element ''connection'' [(''class'', ''postgres'')] None [(Element ''relation'' [(''type'', ''text'')] (Some ''SELECT 1'') [])])])])"
  let ?outer = "(Element ''connection'' [(''class'', ''federated'')] None [(Element ''connection'' [(''class'', ''postgres'')] None [(Element ''relation'' [(''type'', ''text'')] (Some ''SELECT 1'') [])])])"
  let ?inner = "(Element ''connection'' [(''class'', ''postgres'')] None [(Element ''relation'' [(''type'', ''text'')] (Some ''SELECT 1'') [])])"
  let ?r = "(Element ''relation'' [(''type'', ''text'')] (Some ''SELECT 1'') [])"
  let ?st = "\<lparr>sql_queries = [], stdout = [], files = Map.empty\<rparr>"
  have h1: "0 < length (findall ?root ''connection'')" by code_simp
  have h2: "?outer = findall ?root ''connection'' ! 0" by code_simp
  have h3: "?inner \<in> set (findall ?outer ''connection'')" by code_simp
  have h4: "0 < length (findall_text_relations ?inner)" by code_simp
  have h5: "?r = findall_text_relations ?inner ! 0" by code_simp
  have h6: "has_sql (etext ?r)" by code_simp
  have v: "sql_queries (process_root ?root ?st)
       = [(''federated'', ''SELECT 1''), (''postgres'', ''SELECT 1'')]" by code_simp
  note t = nested_connection_sql_is_stored_for_both [OF h1 h2 h3 h4 h5 h6, of ?st ?st ?st]
  show ?thesis
    by (intro conjI) (rule h1, rule h2, rule h3, rule h5, rule h6, rule t, rule v)
qed

text \<open>
  C6, as stated, fails twice. The labels \<open>a.b\<close> and \<open>a_b\<close> get the same file
  name, so the file of the entry \<open>a.b\<close> holds the SQL of \<open>a_b\<close>; and the letter
  U+00E9, which is outside \<open>[A-Za-z0-9_-]\<close>, is alphanumeric for \<open>str.isalnum\<close> and
  stays in the file name.
\<close>

theorem sanitised_names_collide_and_keep_accented_letters:
  "fst (extract_sql_from_tdsx \<lparr>makedirs_ok = (\<lambda>d. True), open_ok = (\<lambda>p. True)\<rparr> (ZipFile [''a.tds''] (\<lambda>f. Inr (Element ''datasource'' [] None [Element ''connection'' [(''class'', ''a.b'')] None [Element ''relation'' [(''type'', ''text'')] (Some ''SELECT 1'') []], Element ''connection'' [(''class'', ''a_b'')] None [Element ''relation'' [(''type'', ''text'')] (Some ''SELECT 2'') []]]))) (Some ''out'') \<lparr>sql_queries = [], stdout = [], files = Map.empty\<rparr>) = Returned [(''a.b'', ''SELECT 1''), (''a_b'', ''SELECT 2'')]
   \<and> path_join ''out'' (safe_name ''a.b'' @ ''.sql'') = ''out/a_b.sql''
   \<and> files (snd (extract_sql_from_tdsx \<lparr>makedirs_ok = (\<lambda>d. True), open_ok = (\<lambda>p. True)\<rparr> (ZipFile [''a.tds''] (\<lambda>f. Inr (Element ''datasource'' [] None [Element ''connection'' [(''class'', ''a.b'')] None [Element ''relation'' [(''type'', ''text'')] (Some ''SELECT 1'') []], Element ''connection'' [(''class'', ''a_b'')] None [Element ''relation'' [(''type'', ''text'')] (Some ''SELECT 2'') []]]))) (Some ''out'') \<lparr>sql_queries = [], stdout = [], files = Map.empty\<rparr>)) ''out/a_b.sql'' = Some ''SELECT 2''
   \<and> safe_name [CHR ''c'', CHR ''a'', CHR ''f'', CHR 0xE9] = [CHR ''c'', CHR ''a'', CHR ''f'', CHR 0xE9]"
  by code_simp

text \<open>
  C6, amended. When the call with an output directory returns, the file of an entry is
  named by replacing each label character that is not alphanumeric for \<open>str.isalnum\<close>,
  a hyphen or an underscore with an underscore, plus \<open>.sql\<close>, and it holds exactly the
  entry's SQL text, which is non-empty and trimmed, provided no later entry of the
  mapping has the same sanitised name. Every ASCII character of the label outside
  \<open>[A-Za-z0-9_-]\<close> is an underscore in the file name.
\<close>

theorem sink_file_holds_the_sql_of_its_entry:
  assumes "extract_sql_from_tdsx env src (Some d) st0 = (Returned m, st')"
    and "d \<noteq> []"
    and "i < length m"
    and "m ! i = (label, sql)"
    and "\<forall>j. i < j \<and> j < length m \<longrightarrow> safe_name (fst (m ! j)) \<noteq> safe_name label"
  shows "files st' (path_join d (safe_name label @ ''.sql'')) = Some sql
         \<and> sql \<noteq> [] \<and> strip sql = sql
         \<and> length (safe_name label) = length label
         \<and> (\<forall>n < length label.
               safe_name label ! n =
                 (if isalnum (label ! n) \<or> label ! n = CHR ''-'' \<or> label ! n = CHR ''_''
                  then label ! n else CHR ''_''))
         \<and> (\<forall>n < length label.
               (of_char (label ! n) :: nat) < 128
               \<and> \<not> ((48 \<le> (of_char (label ! n) :: nat) \<and> (of_char (label ! n) :: nat) \<le> 57)
                     \<or> (65 \<le> (of_char (label ! n) :: nat) \<and> (of_char (label ! n) :: nat) \<le> 90)
                     \<or> (97 \<le> (of_char (label ! n) :: nat) \<and> (of_char (label ! n) :: nat) \<le> 122))
               \<and> label ! n \<noteq> CHR ''-'' \<and> label ! n \<noteq> CHR ''_''
               \<longrightarrow> safe_name label ! n = CHR ''_'')"
proof -
  from assms(3) have ne: "m \<noteq> []" by auto
  from extract_saved [OF assms(1,2) ne] obtain st1
    where sv: "save_files env d m st1 = (None, st')" by blast
  from assms(4,5) have later:
    "\<forall>j. i < j \<and> j < length m \<longrightarrow> safe_name (fst (m ! j)) \<noteq> safe_name (fst (m ! i))"
    by simp
  from save_files_content [OF sv assms(3) later] assms(4)
  have 1: "files st' (path_join d (safe_name label @ ''.sql'')) = Some sql" by simp
  from assms(1) have "fst (extract_sql_from_tdsx env src (Some d) st0) = Returned m" by simp
  from extract_Returned [OF this] extract_trimmed [of env src "Some d" st0]
  have "values_trimmed m" by simp
  moreover from assms(3,4) have "(label, sql) \<in> set m" by (metis nth_mem)
  ultimately have 2: "sql \<noteq> [] \<and> strip sql = sql" by (auto simp: values_trimmed_def)
  have 3: "length (safe_name label) = length label" by (simp add: safe_name_def)
  have 4: "\<forall>n < length label.
               safe_name label ! n =
                 (if isalnum (label ! n) \<or> label ! n = CHR ''-'' \<or> label ! n = CHR ''_''
                  then label ! n else CHR ''_'')"
    by (simp add: safe_name_def)
  have 5: "\<forall>n < length label.
               (of_char (label ! n) :: nat) < 128
               \<and> \<not> ((48 \<le> (of_char (label ! n) :: nat) \<and> (of_char (label ! n) :: nat) \<le> 57)
                     \<or> (65 \<le> (of_char (label ! n) :: nat) \<and> (of_char (label ! n) :: nat) \<le> 90)
                     \<or> (97 \<le> (of_char (label ! n) :: nat) \<and> (of_char (label ! n) :: nat) \<le> 122))
               \<and> label ! n \<noteq> CHR ''-'' \<and> label ! n \<noteq> CHR ''_''
               \<longrightarrow> safe_name label ! n = CHR ''_''"
  proof (intro allI impI)
    fix n assume n: "n < length label"
    assume a: "(of_char (label ! n) :: nat) < 128
               \<and> \<not> ((48 \<le> (of_char (label ! n) :: nat) \<and> (of_char (label ! n) :: nat) \<le> 57)
                     \<or> (65 \<le> (of_char (label ! n) :: nat) \<and> (of_char (label ! n) :: nat) \<le> 90)
                     \<or> (97 \<le> (of_char (label ! n) :: nat) \<and> (of_char (label ! n) :: nat) \<le> 122))
               \<and> label ! n \<noteq> CHR ''-'' \<and> label ! n \<noteq> CHR ''_''"
    then have "\<not> isalnum (label ! n)" by (intro ascii_not_alnum) blast+
    with a n show "safe_name label ! n = CHR ''_''" by (simp add: safe_name_def)
  qed
  from 1 2 3 4 5 show ?thesis by blast
qed

theorem sink_file_holds_the_sql_of_its_entry_witness:
  "extract_sql_from_tdsx \<lparr>makedirs_ok = (\<lambda>d. True), open_ok = (\<lambda>p. True)\<rparr> (ZipFile [''a.tds''] (\<lambda>f. Inr (Element ''datasource'' [] None [Element ''connection'' [(''class'', ''my db'')] None [Element ''relation'' [(''type'', ''text'')] (Some '' SELECT 1 '') []]]))) (Some ''out'') \<lparr>sql_queries = [], stdout = [], files = Map.empty\<rparr>
     = (Returned [(''my db'', ''SELECT 1'')], snd (extract_sql_from_tdsx \<lparr>makedirs_ok = (\<lambda>d. True), open_ok = (\<lambda>p. True)\<rparr> (ZipFile [''a.tds''] (\<lambda>f. Inr (Element ''datasource'' [] None [Element ''connection'' [(''class'', ''my db'')] None [Element ''relation'' [(''type'', ''text'')] (Some '' SELECT 1 '') []]]))) (Some ''out'') \<lparr>sql_queries = [], stdout = [], files = Map.empty\<rparr>))
   \<and> files (snd (extract_sql_from_tdsx \<lparr>makedirs_ok = (\<lambda>d. True), open_ok = (\<lambda>p. True)\<rparr> (ZipFile [''a.tds''] (\<lambda>f. Inr (Element ''datasource'' [] None [Element ''connection'' [(''class'', ''my db'')] None [Element ''relation'' [(''type'', ''text'')] (Some '' SELECT 1 '') []]]))) (Some ''out'') \<lparr>sql_queries = [], stdout = [], files = Map.empty\<rparr>)) ''out/my_db.sql'' = Some ''SELECT 1''
   \<and> safe_name ''my db'' = ''my_db''
   \<and> path_join ''out'' (safe_name ''my db'' @ ''.sql'') = ''out/my_db.sql''"
proof -
  have f: "fst (extract_sql_from_tdsx \<lparr>makedirs_ok = (\<lambda>d. True), open_ok = (\<lambda>p. True)\<rparr> (ZipFile [''a.tds''] (\<lambda>f. Inr (Element ''datasource'' [] None [Element ''connection'' [(''class'', ''my db'')] None [Element ''relation'' [(''type'', ''text'')] (Some '' SELECT 1 '') []]]))) (Some ''out'') \<lparr>sql_queries = [], stdout = [], files = Map.empty\<rparr>) = Returned [(''my db'', ''SELECT 1'')]" by code_simp
  have h1: "extract_sql_from_tdsx \<lparr>makedirs_ok = (\<lambda>d. True), open_ok = (\<lambda>p. True)\<rparr> (ZipFile [''a.tds''] (\<lambda>f. Inr (Element ''datasource'' [] None [Element ''connection'' [(''class'', ''my db'')] None [Element ''relation'' [(''type'', ''text'')] (Some '' SELECT 1 '') []]]))) (Some ''out'') \<lparr>sql_queries = [], stdout = [], files = Map.empty\<rparr>
     = (Returned [(''my db'', ''SELECT 1'')], snd (extract_sql_from_tdsx \<lparr>makedirs_ok = (\<lambda>d. True), open_ok = (\<lambda>p. True)\<rparr> (ZipFile [''a.tds''] (\<lambda>f. Inr (Element ''datasource'' [] None [Element ''connection'' [(''class'', ''my db'')] None [Element ''relation'' [(''type'', ''text'')] (Some '' SELECT 1 '') []]]))) (Some ''out'') \<lparr>sql_queries = [], stdout = [], files = Map.empty\<rparr>))"
    by (rule prod_eqI) (simp_all add: f)
  have h2: "''out'' \<noteq> []" by simp
  have h3: "0 < length [(''my db'', ''SELECT 1'')]" by simp
  have h4: "[(''my db'', ''SELECT 1'')] ! 0 = (''my db'', ''SELECT 1'')" by simp
  have h5: "\<forall>j. 0 < j \<and> j < length [(''my db'', ''SELECT 1'')] \<longrightarrow>
      safe_name (fst ([(''my db'', ''SELECT 1'')] ! j)) \<noteq> safe_name ''my db''" by auto
  have p: "path_join ''out'' (safe_name ''my db'' @ ''.sql'') = ''out/my_db.sql''" by code_simp
  have s: "safe_name ''my db'' = ''my_db''" by code_simp
  note t = sink_file_holds_the_sql_of_its_entry [OF h1 h2 h3 h4 h5]
  from t have a0: "files (snd (extract_sql_from_tdsx \<lparr>makedirs_ok = (\<lambda>d. True), open_ok = (\<lambda>p. True)\<rparr> (ZipFile [''a.tds''] (\<lambda>f. Inr (Element ''datasource'' [] None [Element ''connection'' [(''class'', ''my db'')] None [Element ''relation'' [(''type'', ''text'')] (Some '' SELECT 1 '') []]]))) (Some ''out'') \<lparr>sql_queries = [], stdout = [], files = Map.empty\<rparr>)) (path_join ''out'' (safe_name ''my db'' @ ''.sql'')) = Some ''SELECT 1''"
    by blast
  then have a: "files (snd (extract_sql_from_tdsx \<lparr>makedirs_ok = (\<lambda>d. True), open_ok = (\<lambda>p. True)\<rparr> (ZipFile [''a.tds''] (\<lambda>f. Inr (Element ''datasource'' [] None [Element ''connection'' [(''class'', ''my db'')] None [Element ''relation'' [(''type'', ''text'')] (Some '' SELECT 1 '') []]]))) (Some ''out'') \<lparr>sql_queries = [], stdout = [], files = Map.empty\<rparr>)) ''out/my_db.sql'' = Some ''SELECT 1''"
    by (simp only: p)
  show ?thesis
    by (intro conjI) (rule h1, rule a, rule s, rule p)
qed

text \<open>
  C3. When \<open>f\<close> is the first descriptor whose reading, decoding or parsing raises an
  exception \<open>e\<close> (\<open>ParseError\<close> for malformed text, \<open>ValueError\<close> or
  \<open>LookupError\<close> for an encoding that cannot be decoded, or any other), the loop stops
  there. The whole call is the same as if the archive ended with \<open>f\<close>, so no later
  entry is processed. The document is not skipped silently: its name is announced and
  the handler of \<open>e\<close> reports the error ("Error parsing XML" for \<open>ParseError\<close>,
  "Unexpected error" for the decoding errors). The call then goes on to line 183 with
  the entries of the descriptors before \<open>f\<close>: they are what it saves and returns.
\<close>

theorem failing_descriptor_aborts_the_archive:
  assumes "names = pre @ f # post"
    and "endswith f ''.tds''"
    and "rd f = Inl e"
    and "\<forall>g \<in> set pre. endswith g ''.tds'' \<longrightarrow> (\<exists>root. rd g = Inr root)"
    and "before = snd (process_tds_files rd (filter (\<lambda>g. endswith g ''.tds'') pre)
                        (st0\<lparr>sql_queries := []\<rparr>))"
    and "report = (case e of BadZipFile \<Rightarrow> Not_a_valid_zip
                   | ParseError \<Rightarrow> Error_parsing_XML
                   | _ \<Rightarrow> Unexpected_error)"
  shows "extract_sql_from_tdsx env (ZipFile names rd) output_dir st0 =
           extract_sql_from_tdsx env (ZipFile (pre @ [f]) rd) output_dir st0
         \<and> extract_sql_from_tdsx env (ZipFile names rd) output_dir st0 =
             save_and_return env output_dir (print report (print (Processing f) before))
         \<and> extract_sql_from_tdsx env (ZipFile names rd) None st0 =
             (Returned (sql_queries before), print report (print (Processing f) before))
         \<and> sql_queries (snd (extract_sql_from_tdsx env (ZipFile names rd) output_dir st0)) =
             sql_queries before
         \<and> Processing f
             \<in> set (stdout (snd (extract_sql_from_tdsx env (ZipFile names rd) output_dir st0)))
         \<and> report
             \<in> set (stdout (snd (extract_sql_from_tdsx env (ZipFile names rd) output_dir st0)))"
proof -
  have h: "handler e s = print report s" for s
    by (cases e) (simp_all add: assms(6))
  note full = extract_first_failure [OF assms(2,3,4), of env post _ st0, folded assms(5), unfolded h]
  note cut = extract_first_failure [OF assms(2,3,4), of env "[]" _ st0, folded assms(5), unfolded h]
  have 1: "extract_sql_from_tdsx env (ZipFile names rd) output_dir st0 =
           extract_sql_from_tdsx env (ZipFile (pre @ [f]) rd) output_dir st0"
    by (simp only: assms(1) full cut)
  have 2: "extract_sql_from_tdsx env (ZipFile names rd) output_dir st0 =
             save_and_return env output_dir (print report (print (Processing f) before))"
    by (simp only: assms(1) full)
  have 3: "extract_sql_from_tdsx env (ZipFile names rd) None st0 =
             (Returned (sql_queries before), print report (print (Processing f) before))"
    by (simp add: assms(1) full save_and_return_def)
  have 4: "sql_queries (snd (extract_sql_from_tdsx env (ZipFile names rd) output_dir st0)) =
             sql_queries before"
    by (simp add: 2 save_and_return_sql)
  have 5: "Processing f
             \<in> set (stdout (snd (extract_sql_from_tdsx env (ZipFile names rd) output_dir st0)))"
    unfolding 2 by (rule save_and_return_logged) simp
  have 6: "report
             \<in> set (stdout (snd (extract_sql_from_tdsx env (ZipFile names rd) output_dir st0)))"
    unfolding 2 by (rule save_and_return_logged) simp
  from 1 2 3 4 5 6 show ?thesis by blast
qed

theorem failing_descriptor_aborts_the_archive_witness:
  "endswith ''b.tds'' ''.tds''
   \<and> extract_sql_from_tdsx \<lparr>makedirs_ok = (\<lambda>d. True), open_ok = (\<lambda>p. True)\<rparr> (ZipFile [''a.tds'', ''b.tds'', ''c.tds''] (\<lambda>f. if f = ''a.tds'' then Inr (Element ''datasource'' [] None [Element ''connection'' [(''class'', ''c'')] None [Element ''relation'' [(''type'', ''text'')] (Some ''SELECT 1'') []]]) else if f = ''b.tds'' then Inl ParseError else Inr (Element ''datasource'' [] None [Element ''connection'' [(''class'', ''d'')] None [Element ''relation'' [(''type'', ''text'')] (Some ''SELECT 2'') []]]))) None \<lparr>sql_queries = [], stdout = [], files = Map.empty\<rparr>
     = extract_sql_from_tdsx \<lparr>makedirs_ok = (\<lambda>d. True), open_ok = (\<lambda>p. True)\<rparr> (ZipFile ([''a.tds''] @ [''b.tds'']) (\<lambda>f. if f = ''a.tds'' then Inr (Element ''datasource'' [] None [Element ''connection'' [(''class'', ''c'')] None [Element ''relation'' [(''type'', ''text'')] (Some ''SELECT 1'') []]]) else if f = ''b.tds'' then Inl ParseError else Inr (Element ''datasource'' [] None [Element ''connection'' [(''class'', ''d'')] None [Element ''relation'' [(''type'', ''text'')] (Some ''SELECT 2'') []]]))) None \<lparr>sql_queries = [], stdout = [], files = Map.empty\<rparr>
   \<and> fst (extract_sql_from_tdsx \<lparr>makedirs_ok = (\<lambda>d. True), open_ok = (\<lambda>p. True)\<rparr> (ZipFile [''a.tds'', ''b.tds'', ''c.tds''] (\<lambda>f. if f = ''a.tds'' then Inr (Element ''datasource'' [] None [Element ''connection'' [(''class'', ''c'')] None [Element ''relation'' [(''type'', ''text'')] (Some ''SELECT 1'') []]]) else if f = ''b.tds'' then Inl ParseError else Inr (Element ''datasource'' [] None [Element ''connection'' [(''class'', ''d'')] None [Element ''relation'' [(''type'', ''text'')] (Some ''SELECT 2'') []]]))) None \<lparr>sql_queries = [], stdout = [], files = Map.empty\<rparr>) = Returned [(''c'', ''SELECT 1'')]
   \<and> Error_parsing_XML \<in> set (stdout (snd (extract_sql_from_tdsx \<lparr>makedirs_ok = (\<lambda>d. True), open_ok = (\<lambda>p. True)\<rparr> (ZipFile [''a.tds'', ''b.tds'', ''c.tds''] (\<lambda>f. if f = ''a.tds'' then Inr (Element ''datasource'' [] None [Element ''connection'' [(''class'', ''c'')] None [Element ''relation'' [(''type'', ''text'')] (Some ''SELECT 1'') []]]) else if f = ''b.tds'' then Inl ParseError else Inr (Element ''datasource'' [] None [Element ''connection'' [(''class'', ''d'')] None [Element ''relation'' [(''type'', ''text'')] (Some ''SELECT 2'') []]]))) None \<lparr>sql_queries = [], stdout = [], files = Map.empty\<rparr>)))
   \<and> Processing ''b.tds'' \<in> set (stdout (snd (extract_sql_from_tdsx \<lparr>makedirs_ok = (\<lambda>d. True), open_ok = (\<lambda>p. True)\<rparr> (ZipFile [''a.tds'', ''b.tds'', ''c.tds''] (\<lambda>f. if f = ''a.tds'' then Inr (Element ''datasource'' [] None [Element ''connection'' [(''class'', ''c'')] None [Element ''relation'' [(''type'', ''text'')] (Some ''SELECT 1'') []]]) else if f = ''b.tds'' then Inl ParseError else Inr (Element ''datasource'' [] None [Element ''connection'' [(''class'', ''d'')] None [Element ''relation'' [(''type'', ''text'')] (Some ''SELECT 2'') []]]))) None \<lparr>sql_queries = [], stdout = [], files = Map.empty\<rparr>)))
   \<and> sql_queries (snd (extract_sql_from_tdsx \<lparr>makedirs_ok = (\<lambda>d. True), open_ok = (\<lambda>p. True)\<rparr> (ZipFile [''a.tds'', ''b.tds'', ''c.tds''] (\<lambda>f. if f = ''a.tds'' then Inr (Element ''datasource'' [] None [Element ''connection'' [(''class'', ''c'')] None [Element ''relation'' [(''type'', ''text'')] (Some ''SELECT 1'') []]]) else if f = ''b.tds'' then Inl ValueError else Inr (Element ''datasource'' [] None [Element ''connection'' [(''class'', ''d'')] None [Element ''relation'' [(''type'', ''text'')] (Some ''SELECT 2'') []]]))) (Some ''out'') \<lparr>sql_queries = [], stdout = [], files = Map.empty\<rparr>)) = [(''c'', ''SELECT 1'')]
   \<and> Unexpected_error \<in> set (stdout (snd (extract_sql_from_tdsx \<lparr>makedirs_ok = (\<lambda>d. True), open_ok = (\<lambda>p. True)\<rparr> (ZipFile [''a.tds'', ''b.tds'', ''c.tds''] (\<lambda>f. if f = ''a.tds'' then Inr (Element ''datasource'' [] None [Element ''connection'' [(''class'', ''c'')] None [Element ''relation'' [(''type'', ''text'')] (Some ''SELECT 1'') []]]) else if f = ''b.tds'' then Inl ValueError else Inr (Element ''datasource'' [] None [Element ''connection'' [(''class'', ''d'')] None [Element ''relation'' [(''type'', ''text'')] (Some ''SELECT 2'') []]]))) (Some ''out'') \<lparr>sql_queries = [], stdout = [], files = Map.empty\<rparr>)))
   \<and> files (snd (extract_sql_from_tdsx \<lparr>makedirs_ok = (\<lambda>d. True), open_ok = (\<lambda>p. True)\<rparr> (ZipFile [''a.tds'', ''b.tds'', ''c.tds''] (\<lambda>f. if f = ''a.tds'' then Inr (Element ''datasource'' [] None [Element ''connection'' [(''class'', ''c'')] None [Element ''relation'' [(''type'', ''text'')] (Some ''SELECT 1'') []]]) else if f = ''b.tds'' then Inl ValueError else Inr (Element ''datasource'' [] None [Element ''connection'' [(''class'', ''d'')] None [Element ''relation'' [(''type'', ''text'')] (Some ''SELECT 2'') []]]))) (Some ''out'') \<lparr>sql_queries = [], stdout = [], files = Map.empty\<rparr>)) ''out/c.sql'' = Some ''SELECT 1''"
proof -
  have h1: "[''a.tds'', ''b.tds'', ''c.tds''] = [''a.tds''] @ ''b.tds'' # [''c.tds'']" by simp
  have h2: "endswith ''b.tds'' ''.tds''" by code_simp
  have h3p: "(\<lambda>f. if f = ''a.tds'' then Inr (Element ''datasource'' [] None [Element ''connection'' [(''class'', ''c'')] None [Element ''relation'' [(''type'', ''text'')] (Some ''SELECT 1'') []]]) else if f = ''b.tds'' then Inl ParseError else Inr (Element ''datasource'' [] None [Element ''connection'' [(''class'', ''d'')] None [Element ''relation'' [(''type'', ''text'')] (Some ''SELECT 2'') []]])) ''b.tds'' = Inl ParseError" by simp
  have h3v: "(\<lambda>f. if f = ''a.tds'' then Inr (Element ''datasource'' [] None [Element ''connection'' [(''class'', ''c'')] None [Element ''relation'' [(''type'', ''text'')] (Some ''SELECT 1'') []]]) else if f = ''b.tds'' then Inl ValueError else Inr (Element ''datasource'' [] None [Element ''connection'' [(''class'', ''d'')] None [Element ''relation'' [(''type'', ''text'')] (Some ''SELECT 2'') []]])) ''b.tds'' = Inl ValueError" by simp
  have h4p: "\<forall>g \<in> set [''a.tds'']. endswith g ''.tds'' \<longrightarrow> (\<exists>root. (\<lambda>f. if f = ''a.tds'' then Inr (Element ''datasource'' [] None [Element ''connection'' [(''class'', ''c'')] None [Element ''relation'' [(''type'', ''text'')] (Some ''SELECT 1'') []]]) else if f = ''b.tds'' then Inl ParseError else Inr (Element ''datasource'' [] None [Element ''connection'' [(''class'', ''d'')] None [Element ''relation'' [(''type'', ''text'')] (Some ''SELECT 2'') []]])) g = Inr root)"
    by simp
  have h4v: "\<forall>g \<in> set [''a.tds'']. endswith g ''.tds'' \<longrightarrow> (\<exists>root. (\<lambda>f. if f = ''a.tds'' then Inr (Element ''datasource'' [] None [Element ''connection'' [(''class'', ''c'')] None [Element ''relation'' [(''type'', ''text'')] (Some ''SELECT 1'') []]]) else if f = ''b.tds'' then Inl ValueError else Inr (Element ''datasource'' [] None [Element ''connection'' [(''class'', ''d'')] None [Element ''relation'' [(''type'', ''text'')] (Some ''SELECT 2'') []]])) g = Inr root)"
    by simp
  have h6p: "Error_parsing_XML = (case ParseError of BadZipFile \<Rightarrow> Not_a_valid_zip
                   | ParseError \<Rightarrow> Error_parsing_XML | _ \<Rightarrow> Unexpected_error)" by simp
  have h6v: "Unexpected_error = (case ValueError of BadZipFile \<Rightarrow> Not_a_valid_zip
                   | ParseError \<Rightarrow> Error_parsing_XML | _ \<Rightarrow> Unexpected_error)" by simp
  note tp = failing_descriptor_aborts_the_archive
      [where names = "[''a.tds'', ''b.tds'', ''c.tds'']" and pre = "[''a.tds'']" and f = "''b.tds''"
         and post = "[''c.tds'']" and rd = "(\<lambda>f. if f = ''a.tds'' then Inr (Element ''datasource'' [] None [Element ''connection'' [(''class'', ''c'')] None [Element ''relation'' [(''type'', ''text'')] (Some ''SELECT 1'') []]]) else if f = ''b.tds'' then Inl ParseError else Inr (Element ''datasource'' [] None [Element ''connection'' [(''class'', ''d'')] None [Element ''relation'' [(''type'', ''text'')] (Some ''SELECT 2'') []]]))" and e = ParseError
         and before = "snd (process_tds_files (\<lambda>f. if f = ''a.tds'' then Inr (Element ''datasource'' [] None [Element ''connection'' [(''class'', ''c'')] None [Element ''relation'' [(''type'', ''text'')] (Some ''SELECT 1'') []]]) else if f = ''b.tds'' then Inl ParseError else Inr (Element ''datasource'' [] None [Element ''connection'' [(''class'', ''d'')] None [Element ''relation'' [(''type'', ''text'')] (Some ''SELECT 2'') []]])) (filter (\<lambda>g. endswith g ''.tds'') [''a.tds'']) (\<lparr>sql_queries = [], stdout = [], files = Map.empty\<rparr>\<lparr>sql_queries := []\<rparr>))"
         and ?st0.0 = "\<lparr>sql_queries = [], stdout = [], files = Map.empty\<rparr>" and report = Error_parsing_XML and env = "\<lparr>makedirs_ok = (\<lambda>d. True), open_ok = (\<lambda>p. True)\<rparr>" and output_dir = "None",
         OF h1 h2 h3p h4p refl h6p]
  note tv = failing_descriptor_aborts_the_archive
      [where names = "[''a.tds'', ''b.tds'', ''c.tds'']" and pre = "[''a.tds'']" and f = "''b.tds''"
         and post = "[''c.tds'']" and rd = "(\<lambda>f. if f = ''a.tds'' then Inr (Element ''datasource'' [] None [Element ''connection'' [(''class'', ''c'')] None [Element ''relation'' [(''type'', ''text'')] (Some ''SELECT 1'') []]]) else if f = ''b.tds'' then Inl ValueError else Inr (Element ''datasource'' [] None [Element ''connection'' [(''class'', ''d'')] None [Element ''relation'' [(''type'', ''text'')] (Some ''SELECT 2'') []]]))" and e = ValueError
         and before = "snd (process_tds_files (\<lambda>f. if f = ''a.tds'' then Inr (Element ''datasource'' [] None [Element ''connection'' [(''class'', ''c'')] None [Element ''relation'' [(''type'', ''text'')] (Some ''SELECT 1'') []]]) else if f = ''b.tds'' then Inl ValueError else Inr (Element ''datasource'' [] None [Element ''connection'' [(''class'', ''d'')] None [Element ''relation'' [(''type'', ''text'')] (Some ''SELECT 2'') []]])) (filter (\<lambda>g. endswith g ''.tds'') [''a.tds'']) (\<lparr>sql_queries = [], stdout = [], files = Map.empty\<rparr>\<lparr>sql_queries := []\<rparr>))"
         and ?st0.0 = "\<lparr>sql_queries = [], stdout = [], files = Map.empty\<rparr>" and report = Unexpected_error and env = "\<lparr>makedirs_ok = (\<lambda>d. True), open_ok = (\<lambda>p. True)\<rparr>" and output_dir = "Some ''out''",
         OF h1 h2 h3v h4v refl h6v]
  have bp: "sql_queries (snd (process_tds_files (\<lambda>f. if f = ''a.tds'' then Inr (Element ''datasource'' [] None [Element ''connection'' [(''class'', ''c'')] None [Element ''relation'' [(''type'', ''text'')] (Some ''SELECT 1'') []]]) else if f = ''b.tds'' then Inl ParseError else Inr (Element ''datasource'' [] None [Element ''connection'' [(''class'', ''d'')] None [Element ''relation'' [(''type'', ''text'')] (Some ''SELECT 2'') []]])) (filter (\<lambda>g. endswith g ''.tds'') [''a.tds'']) (\<lparr>sql_queries = [], stdout = [], files = Map.empty\<rparr>\<lparr>sql_queries := []\<rparr>))) = [(''c'', ''SELECT 1'')]" by code_simp
  have bv: "sql_queries (snd (process_tds_files (\<lambda>f. if f = ''a.tds'' then Inr (Element ''datasource'' [] None [Element ''connection'' [(''class'', ''c'')] None [Element ''relation'' [(''type'', ''text'')] (Some ''SELECT 1'') []]]) else if f = ''b.tds'' then Inl ValueError else Inr (Element ''datasource'' [] None [Element ''connection'' [(''class'', ''d'')] None [Element ''relation'' [(''type'', ''text'')] (Some ''SELECT 2'') []]])) (filter (\<lambda>g. endswith g ''.tds'') [''a.tds'']) (\<lparr>sql_queries = [], stdout = [], files = Map.empty\<rparr>\<lparr>sql_queries := []\<rparr>))) = [(''c'', ''SELECT 1'')]" by code_simp
  have fv: "files (snd (extract_sql_from_tdsx \<lparr>makedirs_ok = (\<lambda>d. True), open_ok = (\<lambda>p. True)\<rparr> (ZipFile [''a.tds'', ''b.tds'', ''c.tds''] (\<lambda>f. if f = ''a.tds'' then Inr (Element ''datasource'' [] None [Element ''connection'' [(''class'', ''c'')] None [Element ''relation'' [(''type'', ''text'')] (Some ''SELECT 1'') []]]) else if f = ''b.tds'' then Inl ValueError else Inr (Element ''datasource'' [] None [Element ''connection'' [(''class'', ''d'')] None [Element ''relation'' [(''type'', ''text'')] (Some ''SELECT 2'') []]]))) (Some ''out'') \<lparr>sql_queries = [], stdout = [], files = Map.empty\<rparr>)) ''out/c.sql'' = Some ''SELECT 1''" by code_simp
  have c1: "extract_sql_from_tdsx \<lparr>makedirs_ok = (\<lambda>d. True), open_ok = (\<lambda>p. True)\<rparr> (ZipFile [''a.tds'', ''b.tds'', ''c.tds''] (\<lambda>f. if f = ''a.tds'' then Inr (Element ''datasource'' [] None [Element ''connection'' [(''class'', ''c'')] None [Element ''relation'' [(''type'', ''text'')] (Some ''SELECT 1'') []]]) else if f = ''b.tds'' then Inl ParseError else Inr (Element ''datasource'' [] None [Element ''connection'' [(''class'', ''d'')] None [Element ''relation'' [(''type'', ''text'')] (Some ''SELECT 2'') []]]))) None \<lparr>sql_queries = [], stdout = [], files = Map.empty\<rparr>
     = extract_sql_from_tdsx \<lparr>makedirs_ok = (\<lambda>d. True), open_ok = (\<lambda>p. True)\<rparr> (ZipFile ([''a.tds''] @ [''b.tds'']) (\<lambda>f. if f = ''a.tds'' then Inr (Element ''datasource'' [] None [Element ''connection'' [(''class'', ''c'')] None [Element ''relation'' [(''type'', ''text'')] (Some ''SELECT 1'') []]]) else if f = ''b.tds'' then Inl ParseError else Inr (Element ''datasource'' [] None [Element ''connection'' [(''class'', ''d'')] None [Element ''relation'' [(''type'', ''text'')] (Some ''SELECT 2'') []]]))) None \<lparr>sql_queries = [], stdout = [], files = Map.empty\<rparr>"
    by (rule tp [THEN conjunct1])
  have c2: "fst (extract_sql_from_tdsx \<lparr>makedirs_ok = (\<lambda>d. True), open_ok = (\<lambda>p. True)\<rparr> (ZipFile [''a.tds'', ''b.tds'', ''c.tds''] (\<lambda>f. if f = ''a.tds'' then Inr (Element ''datasource'' [] None [Element ''connection'' [(''class'', ''c'')] None [Element ''relation'' [(''type'', ''text'')] (Some ''SELECT 1'') []]]) else if f = ''b.tds'' then Inl ParseError else Inr (Element ''datasource'' [] None [Element ''connection'' [(''class'', ''d'')] None [Element ''relation'' [(''type'', ''text'')] (Some ''SELECT 2'') []]]))) None \<lparr>sql_queries = [], stdout = [], files = Map.empty\<rparr>) = Returned [(''c'', ''SELECT 1'')]"
    by (simp only: tp [THEN conjunct2, THEN conjunct2, THEN conjunct1] fst_conv bp)
  have c3: "Error_parsing_XML \<in> set (stdout (snd (extract_sql_from_tdsx \<lparr>makedirs_ok = (\<lambda>d. True), open_ok = (\<lambda>p. True)\<rparr> (ZipFile [''a.tds'', ''b.tds'', ''c.tds''] (\<lambda>f. if f = ''a.tds'' then Inr (Element ''datasource'' [] None [Element ''connection'' [(''class'', ''c'')] None [Element ''relation'' [(''type'', ''text'')] (Some ''SELECT 1'') []]]) else if f = ''b.tds'' then Inl ParseError else Inr (Element ''datasource'' [] None [Element ''connection'' [(''class'', ''d'')] None [Element ''relation'' [(''type'', ''text'')] (Some ''SELECT 2'') []]]))) None \<lparr>sql_queries = [], stdout = [], files = Map.empty\<rparr>)))"
    by (rule tp [THEN conjunct2, THEN conjunct2, THEN conjunct2, THEN conjunct2, THEN conjunct2])
  have c4: "Processing ''b.tds'' \<in> set (stdout (snd (extract_sql_from_tdsx \<lparr>makedirs_ok = (\<lambda>d. True), open_ok = (\<lambda>p. True)\<rparr> (ZipFile [''a.tds'', ''b.tds'', ''c.tds''] (\<lambda>f. if f = ''a.tds'' then Inr (Element ''datasource'' [] None [Element ''connection'' [(''class'', ''c'')] None [Element ''relation'' [(''type'', ''text'')] (Some ''SELECT 1'') []]]) else if f = ''b.tds'' then Inl ParseError else Inr (Element ''datasource'' [] None [Element ''connection'' [(''class'', ''d'')] None [Element ''relation'' [(''type'', ''text'')] (Some ''SELECT 2'') []]]))) None \<lparr>sql_queries = [], stdout = [], files = Map.empty\<rparr>)))"
    by (rule tp [THEN conjunct2, THEN conjunct2, THEN conjunct2, THEN conjunct2, THEN conjunct1])
  have c5: "sql_queries (snd (extract_sql_from_tdsx \<lparr>makedirs_ok = (\<lambda>d. True), open_ok = (\<lambda>p. True)\<rparr> (ZipFile [''a.tds'', ''b.tds'', ''c.tds''] (\<lambda>f. if f = ''a.tds'' then Inr (Element ''datasource'' [] None [Element ''connection'' [(''class'', ''c'')] None [Element ''relation'' [(''type'', ''text'')] (Some ''SELECT 1'') []]]) else if f = ''b.tds'' then Inl ValueError else Inr (Element ''datasource'' [] None [Element ''connection'' [(''class'', ''d'')] None [Element ''relation'' [(''type'', ''text'')] (Some ''SELECT 2'') []]]))) (Some ''out'') \<lparr>sql_queries = [], stdout = [], files = Map.empty\<rparr>)) = [(''c'', ''SELECT 1'')]"
    by (simp only: tv [THEN conjunct2, THEN conjunct2, THEN conjunct2, THEN conjunct1] bv)
  have c6: "Unexpected_error \<in> set (stdout (snd (extract_sql_from_tdsx \<lparr>makedirs_ok = (\<lambda>d. True), open_ok = (\<lambda>p. True)\<rparr> (ZipFile [''a.tds'', ''b.tds'', ''c.tds''] (\<lambda>f. if f = ''a.tds'' then Inr (Element ''datasource'' [] None [Element ''connection'' [(''class'', ''c'')] None [Element ''relation'' [(''type'', ''text'')] (Some ''SELECT 1'') []]]) else if f = ''b.tds'' then Inl ValueError else Inr (Element ''datasource'' [] None [Element ''connection'' [(''class'', ''d'')] None [Element ''relation'' [(''type'', ''text'')] (Some ''SELECT 2'') []]]))) (Some ''out'') \<lparr>sql_queries = [], stdout = [], files = Map.empty\<rparr>)))"
    by (rule tv [THEN conjunct2, THEN conjunct2, THEN conjunct2, THEN conjunct2, THEN conjunct2])
  show ?thesis
    by (intro conjI) (rule h2, rule c1, rule c2, rule c3, rule c4, rule c5, rule c6, rule fv)
qed

text \<open>
  C7, as stated, fails: a corrupt archive can open and raise \<open>BadZipFile\<close> only when
  an entry is read (a bad CRC-32). The handler of line 175 then reports "not a valid zip
  file", but the entry of the descriptor processed before is returned and saved: a
  partial result, not the empty mapping.
\<close>

theorem unreadable_entry_leaves_a_partial_result:
  "fst (extract_sql_from_tdsx \<lparr>makedirs_ok = (\<lambda>d. True), open_ok = (\<lambda>p. True)\<rparr>
          (ZipFile [''a.tds'', ''b.tds'']
             (\<lambda>f. if f = ''a.tds''
                  then Inr (Element ''datasource'' [] None
                         [Element ''connection'' [(''class'', ''c'')] None
                            [Element ''relation'' [(''type'', ''text'')] (Some ''SELECT 1'') []]])
                  else Inl BadZipFile))
          (Some ''out'') \<lparr>sql_queries = [], stdout = [], files = Map.empty\<rparr>)
     = Returned [(''c'', ''SELECT 1'')]
   \<and> stdout (snd (extract_sql_from_tdsx \<lparr>makedirs_ok = (\<lambda>d. True), open_ok = (\<lambda>p. True)\<rparr>
          (ZipFile [''a.tds'', ''b.tds'']
             (\<lambda>f. if f = ''a.tds''
                  then Inr (Element ''datasource'' [] None
                         [Element ''connection'' [(''class'', ''c'')] None
                            [Element ''relation'' [(''type'', ''text'')] (Some ''SELECT 1'') []]])
                  else Inl BadZipFile))
          (Some ''out'') \<lparr>sql_queries = [], stdout = [], files = Map.empty\<rparr>))
     = [Processing ''a.tds'', Found_SQL ''c'', Processing ''b.tds'', Not_a_valid_zip,
        Saved ''out/c.sql'']
   \<and> files (snd (extract_sql_from_tdsx \<lparr>makedirs_ok = (\<lambda>d. True), open_ok = (\<lambda>p. True)\<rparr>
          (ZipFile [''a.tds'', ''b.tds'']
             (\<lambda>f. if f = ''a.tds''
                  then Inr (Element ''datasource'' [] None
                         [Element ''connection'' [(''class'', ''c'')] None
                            [Element ''relation'' [(''type'', ''text'')] (Some ''SELECT 1'') []]])
                  else Inl BadZipFile))
          (Some ''out'') \<lparr>sql_queries = [], stdout = [], files = Map.empty\<rparr>)) ''out/c.sql''
     = Some ''SELECT 1''"
  by code_simp

text \<open>
  C7, amended. When \<open>zipfile.ZipFile\<close> refuses to open the file with
  \<open>BadZipFile\<close>, the call reports "not a valid zip file", returns the empty mapping,
  raises nothing and writes no file; the same holds, with the report of its handler,
  for any other exception raised on opening. When the archive opens and the first
  failing entry raises \<open>BadZipFile\<close> on reading, the call reports "not a valid zip
  file" and goes on to line 183 with the entries of the descriptors before it: without an
  output directory it returns them and raises nothing.
\<close>

theorem corrupt_archive_outcome:
  "extract_sql_from_tdsx env (Unopenable BadZipFile) output_dir st0 =
     (Returned [], print Not_a_valid_zip (st0\<lparr>sql_queries := []\<rparr>))
   \<and> files (snd (extract_sql_from_tdsx env (Unopenable BadZipFile) output_dir st0)) = files st0
   \<and> fst (extract_sql_from_tdsx env (Unopenable e) output_dir st0) = Returned []
   \<and> files (snd (extract_sql_from_tdsx env (Unopenable e) output_dir st0)) = files st0
   \<and> (endswith f ''.tds'' \<and> rd f = Inl BadZipFile
        \<and> (\<forall>g \<in> set pre. endswith g ''.tds'' \<longrightarrow> (\<exists>root. rd g = Inr root))
        \<and> before = snd (process_tds_files rd (filter (\<lambda>g. endswith g ''.tds'') pre)
                           (st0\<lparr>sql_queries := []\<rparr>))
      \<longrightarrow> extract_sql_from_tdsx env (ZipFile (pre @ f # post) rd) output_dir st0 =
             save_and_return env output_dir (print Not_a_valid_zip (print (Processing f) before))
          \<and> extract_sql_from_tdsx env (ZipFile (pre @ f # post) rd) None st0 =
             (Returned (sql_queries before), print Not_a_valid_zip (print (Processing f) before))
          \<and> sql_queries
               (snd (extract_sql_from_tdsx env (ZipFile (pre @ f # post) rd) output_dir st0)) =
             sql_queries before)"
proof (intro conjI impI)
  show "extract_sql_from_tdsx env (Unopenable BadZipFile) output_dir st0 =
     (Returned [], print Not_a_valid_zip (st0\<lparr>sql_queries := []\<rparr>))"
    by (simp add: extract_unopenable)
  show "files (snd (extract_sql_from_tdsx env (Unopenable BadZipFile) output_dir st0)) = files st0"
    by (simp add: extract_unopenable)
  show "fst (extract_sql_from_tdsx env (Unopenable e) output_dir st0) = Returned []"
    by (simp add: extract_unopenable)
  show "files (snd (extract_sql_from_tdsx env (Unopenable e) output_dir st0)) = files st0"
    by (simp add: extract_unopenable)
next
  assume a: "endswith f ''.tds'' \<and> rd f = Inl BadZipFile
        \<and> (\<forall>g \<in> set pre. endswith g ''.tds'' \<longrightarrow> (\<exists>root. rd g = Inr root))
        \<and> before = snd (process_tds_files rd (filter (\<lambda>g. endswith g ''.tds'') pre)
                           (st0\<lparr>sql_queries := []\<rparr>))"
  then have a1: "endswith f ''.tds''" and a2: "rd f = Inl BadZipFile"
    and a3: "\<forall>g \<in> set pre. endswith g ''.tds'' \<longrightarrow> (\<exists>root. rd g = Inr root)"
    and a4: "before = snd (process_tds_files rd (filter (\<lambda>g. endswith g ''.tds'') pre)
                           (st0\<lparr>sql_queries := []\<rparr>))"
    by blast+
  note full = extract_first_failure [OF a1 a2 a3, of env post _ st0, folded a4]
  show "extract_sql_from_tdsx env (ZipFile (pre @ f # post) rd) output_dir st0 =
             save_and_return env output_dir (print Not_a_valid_zip (print (Processing f) before))"
    by (simp add: full)
  show "extract_sql_from_tdsx env (ZipFile (pre @ f # post) rd) None st0 =
             (Returned (sql_queries before), print Not_a_valid_zip (print (Processing f) before))"
    by (simp add: full save_and_return_def)
  show "sql_queries
               (snd (extract_sql_from_tdsx env (ZipFile (pre @ f # post) rd) output_dir st0)) =
             sql_queries before"
    by (simp add: full save_and_return_sql)
qed

theorem corrupt_archive_outcome_witness:
  "fst (extract_sql_from_tdsx \<lparr>makedirs_ok = (\<lambda>d. True), open_ok = (\<lambda>p. True)\<rparr> (Unopenable BadZipFile) (Some ''out'') \<lparr>sql_queries = [], stdout = [], files = Map.empty\<rparr>) = Returned []
   \<and> stdout (snd (extract_sql_from_tdsx \<lparr>makedirs_ok = (\<lambda>d. True), open_ok = (\<lambda>p. True)\<rparr> (Unopenable BadZipFile) (Some ''out'') \<lparr>sql_queries = [], stdout = [], files = Map.empty\<rparr>)) = [Not_a_valid_zip]
   \<and> endswith ''b.tds'' ''.tds''
   \<and> sql_queries (snd (extract_sql_from_tdsx \<lparr>makedirs_ok = (\<lambda>d. True), open_ok = (\<lambda>p. True)\<rparr> (ZipFile ([''a.tds''] @ ''b.tds'' # []) (\<lambda>f. if f = ''a.tds'' then Inr (Element ''datasource'' [] None [Element ''connection'' [(''class'', ''c'')] None [Element ''relation'' [(''type'', ''text'')] (Some ''SELECT 1'') []]]) else Inl BadZipFile)) (Some ''out'') \<lparr>sql_queries = [], stdout = [], files = Map.empty\<rparr>)) = [(''c'', ''SELECT 1'')]"
proof -
  note t = corrupt_archive_outcome
      [where env = "\<lparr>makedirs_ok = (\<lambda>d. True), open_ok = (\<lambda>p. True)\<rparr>" and output_dir = "Some ''out''" and ?st0.0 = "\<lparr>sql_queries = [], stdout = [], files = Map.empty\<rparr>"
         and e = BadZipFile and f = "''b.tds''" and rd = "(\<lambda>f. if f = ''a.tds'' then Inr (Element ''datasource'' [] None [Element ''connection'' [(''class'', ''c'')] None [Element ''relation'' [(''type'', ''text'')] (Some ''SELECT 1'') []]]) else Inl BadZipFile)" and pre = "[''a.tds'']"
         and post = "[]" and before = "snd (process_tds_files (\<lambda>f. if f = ''a.tds'' then Inr (Element ''datasource'' [] None [Element ''connection'' [(''class'', ''c'')] None [Element ''relation'' [(''type'', ''text'')] (Some ''SELECT 1'') []]]) else Inl BadZipFile) (filter (\<lambda>g. endswith g ''.tds'') [''a.tds'']) (\<lparr>sql_queries = [], stdout = [], files = Map.empty\<rparr>\<lparr>sql_queries := []\<rparr>))"]
  have h2: "endswith ''b.tds'' ''.tds''" by code_simp
  have h3: "(\<lambda>f. if f = ''a.tds'' then Inr (Element ''datasource'' [] None [Element ''connection'' [(''class'', ''c'')] None [Element ''relation'' [(''type'', ''text'')] (Some ''SELECT 1'') []]]) else Inl BadZipFile) ''b.tds'' = Inl BadZipFile" by simp
  have h4: "\<forall>g \<in> set [''a.tds'']. endswith g ''.tds'' \<longrightarrow> (\<exists>root. (\<lambda>f. if f = ''a.tds'' then Inr (Element ''datasource'' [] None [Element ''connection'' [(''class'', ''c'')] None [Element ''relation'' [(''type'', ''text'')] (Some ''SELECT 1'') []]]) else Inl BadZipFile) g = Inr root)"
    by simp
  have b: "sql_queries (snd (process_tds_files (\<lambda>f. if f = ''a.tds'' then Inr (Element ''datasource'' [] None [Element ''connection'' [(''class'', ''c'')] None [Element ''relation'' [(''type'', ''text'')] (Some ''SELECT 1'') []]]) else Inl BadZipFile) (filter (\<lambda>g. endswith g ''.tds'') [''a.tds'']) (\<lparr>sql_queries = [], stdout = [], files = Map.empty\<rparr>\<lparr>sql_queries := []\<rparr>))) = [(''c'', ''SELECT 1'')]" by code_simp
  have c1: "fst (extract_sql_from_tdsx \<lparr>makedirs_ok = (\<lambda>d. True), open_ok = (\<lambda>p. True)\<rparr> (Unopenable BadZipFile) (Some ''out'') \<lparr>sql_queries = [], stdout = [], files = Map.empty\<rparr>) = Returned []"
    by (rule t [THEN conjunct2, THEN conjunct2, THEN conjunct1])
  have c2: "stdout (snd (extract_sql_from_tdsx \<lparr>makedirs_ok = (\<lambda>d. True), open_ok = (\<lambda>p. True)\<rparr> (Unopenable BadZipFile) (Some ''out'') \<lparr>sql_queries = [], stdout = [], files = Map.empty\<rparr>)) = [Not_a_valid_zip]"
    by (simp add: t [THEN conjunct1] print_def)
  have p: "endswith ''b.tds'' ''.tds'' \<and> (\<lambda>f. if f = ''a.tds'' then Inr (Element ''datasource'' [] None [Element ''connection'' [(''class'', ''c'')] None [Element ''relation'' [(''type'', ''text'')] (Some ''SELECT 1'') []]]) else Inl BadZipFile) ''b.tds'' = Inl BadZipFile
      \<and> (\<forall>g \<in> set [''a.tds'']. endswith g ''.tds'' \<longrightarrow> (\<exists>root. (\<lambda>f. if f = ''a.tds'' then Inr (Element ''datasource'' [] None [Element ''connection'' [(''class'', ''c'')] None [Element ''relation'' [(''type'', ''text'')] (Some ''SELECT 1'') []]]) else Inl BadZipFile) g = Inr root))
      \<and> snd (process_tds_files (\<lambda>f. if f = ''a.tds'' then Inr (Element ''datasource'' [] None [Element ''connection'' [(''class'', ''c'')] None [Element ''relation'' [(''type'', ''text'')] (Some ''SELECT 1'') []]]) else Inl BadZipFile) (filter (\<lambda>g. endswith g ''.tds'') [''a.tds'']) (\<lparr>sql_queries = [], stdout = [], files = Map.empty\<rparr>\<lparr>sql_queries := []\<rparr>)) = snd (process_tds_files (\<lambda>f. if f = ''a.tds'' then Inr (Element ''datasource'' [] None [Element ''connection'' [(''class'', ''c'')] None [Element ''relation'' [(''type'', ''text'')] (Some ''SELECT 1'') []]]) else Inl BadZipFile) (filter (\<lambda>g. endswith g ''.tds'') [''a.tds'']) (\<lparr>sql_queries = [], stdout = [], files = Map.empty\<rparr>\<lparr>sql_queries := []\<rparr>))"
    by (intro conjI h2 h3 h4 refl)
  note q = t [THEN conjunct2, THEN conjunct2, THEN conjunct2, THEN conjunct2, THEN mp, OF p]
  have "sql_queries (snd (extract_sql_from_tdsx \<lparr>makedirs_ok = (\<lambda>d. True), open_ok = (\<lambda>p. True)\<rparr> (ZipFile ([''a.tds''] @ ''b.tds'' # []) (\<lambda>f. if f = ''a.tds'' then Inr (Element ''datasource'' [] None [Element ''connection'' [(''class'', ''c'')] None [Element ''relation'' [(''type'', ''text'')] (Some ''SELECT 1'') []]]) else Inl BadZipFile)) (Some ''out'') \<lparr>sql_queries = [], stdout = [], files = Map.empty\<rparr>)) = sql_queries (snd (process_tds_files (\<lambda>f. if f = ''a.tds'' then Inr (Element ''datasource'' [] None [Element ''connection'' [(''class'', ''c'')] None [Element ''relation'' [(''type'', ''text'')] (Some ''SELECT 1'') []]]) else Inl BadZipFile) (filter (\<lambda>g. endswith g ''.tds'') [''a.tds'']) (\<lparr>sql_queries = [], stdout = [], files = Map.empty\<rparr>\<lparr>sql_queries := []\<rparr>)))"
    by (rule q [THEN conjunct2, THEN conjunct2])
  then have c3: "sql_queries (snd (extract_sql_from_tdsx \<lparr>makedirs_ok = (\<lambda>d. True), open_ok = (\<lambda>p. True)\<rparr> (ZipFile ([''a.tds''] @ ''b.tds'' # []) (\<lambda>f. if f = ''a.tds'' then Inr (Element ''datasource'' [] None [Element ''connection'' [(''class'', ''c'')] None [Element ''relation'' [(''type'', ''text'')] (Some ''SELECT 1'') []]]) else Inl BadZipFile)) (Some ''out'') \<lparr>sql_queries = [], stdout = [], files = Map.empty\<rparr>)) = [(''c'', ''SELECT 1'')]" by (simp only: b)
  show ?thesis
    by (intro conjI) (rule c1, rule c2, rule h2, rule c3)
qed

end
